theory Spec2Isabelle
  imports Complex_Main
begin

section \<open>Machine scalars\<close>

text \<open>
  The scalar type \<open>T\<close> of the templates is \<open>float\<close> or \<open>double\<close>, the binary32 and the binary64
  format of IEEE 754. A format is its precision, the number of bits of the significand with
  the leading one, and its largest exponent; the least exponent of a normal number is
  \<open>1 - emax\<close>.
\<close>

record format =
  prec :: nat
  emax :: int



text \<open>
  A value of the type is a finite number, the negative zero, an infinity or NaN; \<open>Num 0\<close> is
  the positive zero. The payloads and the signs of NaNs, which no operation below reads, are
  identified. \<open>Num x\<close> is a value of the format \<open>f\<close> when \<open>x\<close> is one of its numbers,
  \<open>exactly f x\<close> below.
\<close>

datatype scalar = Num real | MinusZero | PlusInf | MinusInf | NaN

text \<open>
  Rounding to nearest, ties to even, the rounding of the arithmetic of C++ and of CUDA device
  code. \<open>floor_log2 x\<close> is the exponent of a positive \<open>x\<close>, the \<open>e\<close> with
  \<open>2^e \<le> x < 2^(e+1)\<close>. The numbers of the format near \<open>x\<close> are the multiples of \<open>2^q\<close>, where
  \<open>q = max e (1 - emax) - (prec - 1)\<close>: below the least normal number the spacing stays that of
  the subnormal numbers. A magnitude that rounds to \<open>2^(emax+1)\<close> overflows to an infinity,
  one that rounds to 0 gives the zero of its sign.
\<close>

definition pow2 :: "int \<Rightarrow> real" where
  "pow2 q = (if 0 \<le> q then 2 ^ nat q else 1 / 2 ^ nat (- q))"

function ilog2 :: "int \<Rightarrow> int" where
  "ilog2 n = (if n < 2 then 0 else 1 + ilog2 (n div 2))"
  by pat_completeness auto
termination
  by (relation "measure (\<lambda>n. nat n)") auto

declare ilog2.simps [simp del]

definition floor_log2 :: "real \<Rightarrow> int" where
  "floor_log2 x =
     (if 1 \<le> x then ilog2 \<lfloor>x\<rfloor>
      else - (ilog2 (\<lceil>1 / x\<rceil> - 1) + 1))"

definition round_half_even :: "real \<Rightarrow> int" where
  "round_half_even y =
     (let n = \<lfloor>y\<rfloor>; d = y - of_int n
      in if d < 1 / 2 then n
         else if 1 / 2 < d then n + 1
         else if even n then n else n + 1)"

definition round_mag :: "format \<Rightarrow> real \<Rightarrow> real option" where
  "round_mag f x =
     (let e = max (floor_log2 x) (1 - emax f);
          q = e - (int (prec f) - 1);
          r = of_int (round_half_even (x / pow2 q)) * pow2 q
      in if pow2 (emax f + 1) \<le> r then None else Some r)"



definition valof :: "scalar \<Rightarrow> real" where
  "valof a = (case a of Num r \<Rightarrow> r | _ \<Rightarrow> 0)"











text \<open>
  The comparisons \<open><\<close>, \<open><=\<close>, \<open>>\<close> and \<open>>=\<close>: each is false when an operand is NaN, and the
  two zeros compare equal.
\<close>

definition key :: "scalar \<Rightarrow> int \<times> real" where
  "key a = (case a of MinusInf \<Rightarrow> (- 1, 0) | PlusInf \<Rightarrow> (1, 0) | _ \<Rightarrow> (0, valof a))"

definition flt :: "scalar \<Rightarrow> scalar \<Rightarrow> bool" where
  "flt a b =
     (a \<noteq> NaN \<and> b \<noteq> NaN
      \<and> (fst (key a) < fst (key b) \<or> (fst (key a) = fst (key b) \<and> snd (key a) < snd (key b))))"

definition fle :: "scalar \<Rightarrow> scalar \<Rightarrow> bool" where
  "fle a b =
     (a \<noteq> NaN \<and> b \<noteq> NaN
      \<and> (fst (key a) < fst (key b) \<or> (fst (key a) = fst (key b) \<and> snd (key a) \<le> snd (key b))))"

definition fgt :: "scalar \<Rightarrow> scalar \<Rightarrow> bool" where
  "fgt a b = flt b a"

definition fge :: "scalar \<Rightarrow> scalar \<Rightarrow> bool" where
  "fge a b = fle b a"

section \<open>The 1D scalar prox functions (function_1d.hpp)\<close>


definition Function1DIndLeq0 :: "scalar \<Rightarrow> scalar \<Rightarrow> scalar \<Rightarrow> scalar \<Rightarrow> scalar" where
  "Function1DIndLeq0 x0 tau alpha beta = (if fgt x0 (Num 0) then Num 0 else x0)"

definition Function1DIndGeq0 :: "scalar \<Rightarrow> scalar \<Rightarrow> scalar \<Rightarrow> scalar \<Rightarrow> scalar" where
  "Function1DIndGeq0 x0 tau alpha beta = (if flt x0 (Num 0) then Num 0 else x0)"

definition Function1DIndEq0 :: "scalar \<Rightarrow> scalar \<Rightarrow> scalar \<Rightarrow> scalar \<Rightarrow> scalar" where
  "Function1DIndEq0 x0 tau alpha beta = Num 0"

definition Function1DIndBox01 :: "scalar \<Rightarrow> scalar \<Rightarrow> scalar \<Rightarrow> scalar \<Rightarrow> scalar" where
  "Function1DIndBox01 x0 tau alpha beta =
     (if fgt x0 (Num 1) then Num 1
      else if flt x0 (Num 0) then Num 0
      else x0)"


section \<open>The solver (solver.cpp)\<close>

text \<open>
  \<open>Solver<T>\<close> drives a Problem and a Backend, both shared objects whose classes are
  defined in other translation units. The model keeps the solver's own fields in a record
  and takes what the collaborators and the host answer as a record of functions. Diagnostic
  printing under \<open>verbose\<close> writes to the log only and is left out. A member \<open>name_\<close>
  of the source is the field \<open>name\<close> here.
\<close>

datatype ConvergenceResult = kConverged | kStoppedMaxIters | kStoppedUser

datatype error =
    Exception string
  | UndefinedBehaviour string

text \<open>
  The fields of \<open>Solver<T>::Options\<close> that solver.cpp reads or writes. The two counts are
  machine integers in the source and integers here: the only arithmetic on them is
  \<open>i + 1\<close> with \<open>i < max_iters\<close> and \<open>max_iters - 1\<close>, which do not overflow for any count
  above the least machine integer. The scalar type \<open>T\<close> is the reals.
\<close>

record Options =
  max_iters :: int
  num_cback_calls :: int
  verbose :: bool
  solve_dual_problem :: bool
  x0 :: "real list"
  y0 :: "real list"

text \<open>
  The collaborators. The problem is a value of an arbitrary type \<open>'p\<close>;
  \<open>Problem_Initialize\<close> returns the initialised problem or the message of the exception
  it throws, \<open>Backend_Initialize\<close> the message of the exception of
  \<open>SetProblem; SetOptions; Initialize\<close> if one is thrown. The backend's answers after
  \<open>PerformIteration\<close> number \<open>i\<close> (counted from 0) and the host's callbacks are functions
  of \<open>i\<close>: each is asked at most once per iteration. \<open>current_solution\<close> fills four
  vectors passed by reference, so it maps their old contents to the new ones.
\<close>

record 'p Collab =
  Problem_Initialize :: "'p \<Rightarrow> string + 'p"
  Dualize :: "'p \<Rightarrow> 'p"
  nrows :: "'p \<Rightarrow> nat"
  ncols :: "'p \<Rightarrow> nat"
  Backend_Initialize :: "'p \<Rightarrow> Options \<Rightarrow> string option"
  primal_residual :: "int \<Rightarrow> real"
  dual_residual :: "int \<Rightarrow> real"
  eps_primal :: "int \<Rightarrow> real"
  eps_dual :: "int \<Rightarrow> real"
  current_solution :: "int \<Rightarrow> real list \<times> real list \<times> real list \<times> real list
                           \<Rightarrow> real list \<times> real list \<times> real list \<times> real list"
  stopping_cb :: "int \<Rightarrow> bool"
  interm_cb :: "int \<Rightarrow> real list \<Rightarrow> real list \<Rightarrow> bool"

record 'p Solver =
  problem :: 'p
  opts :: Options
  cur_primal_sol :: "real list"
  cur_primal_constr_sol :: "real list"
  cur_dual_sol :: "real list"
  cur_dual_constr_sol :: "real list"

text \<open>\<open>std::vector::resize(n)\<close>: truncate, or pad with zeros.\<close>

definition resize :: "nat \<Rightarrow> real list \<Rightarrow> real list" where
  "resize n xs = take n xs @ replicate (n - length xs) 0"

text \<open>\<open>opts_.x0.swap(opts_.y0)\<close>\<close>

definition swap_x0_y0 :: "Options \<Rightarrow> Options" where
  "swap_x0_y0 opt = opt\<lparr>x0 := y0 opt, y0 := x0 opt\<rparr>"

definition Initialize :: "'p Collab \<Rightarrow> 'p Solver \<Rightarrow> error + 'p Solver" where
  "Initialize C s =
     (case Problem_Initialize C (problem s) of
        Inl what \<Rightarrow> Inl (Exception (''Failed to initialize the problem. Reason: '' @ what))
      | Inr p \<Rightarrow>
          let s1 = (if solve_dual_problem (opts s)
                    then s\<lparr>problem := Dualize C p, opts := swap_x0_y0 (opts s)\<rparr>
                    else s\<lparr>problem := p\<rparr>)
          in (case Backend_Initialize C (problem s1) (opts s1) of
                Some what \<Rightarrow>
                  Inl (Exception (''Failed to initialize the backend. Reason: '' @ what))
              | None \<Rightarrow>
                  Inr (s1\<lparr>cur_primal_sol := resize (ncols C (problem s1)) (cur_primal_sol s1),
                          cur_primal_constr_sol :=
                            resize (nrows C (problem s1)) (cur_primal_constr_sol s1),
                          cur_dual_sol := resize (nrows C (problem s1)) (cur_dual_sol s1),
                          cur_dual_constr_sol :=
                            resize (ncols C (problem s1)) (cur_dual_constr_sol s1)\<rparr>)))"

text \<open>
  Modelled from the spec: \<open>linspace\<close> of prost/common.hpp, which is not among the sources.
  The spec: "num_cback_calls points spaced linearly over [0, max_iters-1]".
\<close>

definition linspace :: "real \<Rightarrow> real \<Rightarrow> int \<Rightarrow> real list" where
  "linspace a b n = map (\<lambda>k. a + (b - a) / (of_int n - 1) * of_nat k) [0..<nat n]"

text \<open>
  The state of one run of \<open>Solve\<close>: the solver, the local list \<open>cb_iters\<close>, and the
  invocations of the intermediate callback so far, each with its three arguments.
\<close>

record 'p Run =
  solver :: "'p Solver"
  cb_iters :: "real list"
  interm_calls :: "(int \<times> real list \<times> real list) list"

text \<open>The test of line 208: both residuals strictly below their tolerance.\<close>

definition residuals_below :: "'p Collab \<Rightarrow> int \<Rightarrow> bool" where
  "residuals_below C i =
     (primal_residual C i < eps_primal C i \<and> dual_residual C i < eps_dual C i)"

text \<open>
  The body of the \<open>for\<close> loop at iteration \<open>i\<close>. The result is \<open>Some\<close> of the return code
  when the body ends in \<open>break\<close>, \<open>None\<close> when the loop goes on. \<open>cb_iters.front()\<close> is the
  first operand of the condition of line 212, so it is read in every iteration; on an empty
  list it is undefined behaviour. \<open>is_converged |= interm_cb_(...)\<close> calls the callback
  whatever \<open>is_converged\<close> holds.
\<close>

definition Solve_iteration ::
  "'p Collab \<Rightarrow> int \<Rightarrow> 'p Run \<Rightarrow> error + (ConvergenceResult option \<times> 'p Run)" where
  "Solve_iteration C i r =
     (let s = solver r;
          is_converged = residuals_below C i;
          is_stopped = stopping_cb C i
      in case cb_iters r of
           [] \<Rightarrow> Inl (UndefinedBehaviour ''front() of an empty list'')
         | front # rest \<Rightarrow>
             let (is_converged', r') =
               (if of_int i \<ge> front \<or> is_converged \<or> is_stopped
                   \<or> i = max_iters (opts s) - 1
                then
                  let (x, kx, y, kty) =
                        current_solution C i
                          (cur_primal_sol s, cur_primal_constr_sol s,
                           cur_dual_sol s, cur_dual_constr_sol s);
                      r1 = r\<lparr>solver := s\<lparr>cur_primal_sol := x, cur_primal_constr_sol := kx,
                                           cur_dual_sol := y, cur_dual_constr_sol := kty\<rparr>,
                             cb_iters := rest\<rparr>
                  in if num_cback_calls (opts s) \<ge> 1 then
                       (if solve_dual_problem (opts s)
                        then (is_converged \<or> interm_cb C (i + 1) y x,
                              r1\<lparr>interm_calls := interm_calls r @ [(i + 1, y, x)]\<rparr>)
                        else (is_converged \<or> interm_cb C (i + 1) x y,
                              r1\<lparr>interm_calls := interm_calls r @ [(i + 1, x, y)]\<rparr>))
                     else (is_converged, r1)
                else (is_converged, r))
             in if is_stopped then Inr (Some kStoppedUser, r')
                else if is_converged' then Inr (Some kConverged, r')
                else Inr (None, r'))"

lemma Solve_iteration_opts:
  "Solve_iteration C i r = Inr (res, r') \<Longrightarrow> opts (solver r') = opts (solver r)"
  by (auto simp: Solve_iteration_def Let_def split: list.splits if_splits prod.splits)

text \<open>
  \<open>for(int i = 0; i < opts_.max_iters; i++)\<close>, entered with \<open>result = kStoppedMaxIters\<close>.
\<close>

function Solve_loop ::
  "'p Collab \<Rightarrow> int \<Rightarrow> 'p Run \<Rightarrow> error + (ConvergenceResult \<times> 'p Run)" where
  "Solve_loop C i r =
     (if i < max_iters (opts (solver r)) then
        (case Solve_iteration C i r of
           Inl e \<Rightarrow> Inl e
         | Inr (Some result, r') \<Rightarrow> Inr (result, r')
         | Inr (None, r') \<Rightarrow> Solve_loop C (i + 1) r')
      else Inr (kStoppedMaxIters, r))"
  by pat_completeness auto
termination
  by (relation "measure (\<lambda>(C, i, r). nat (max_iters (opts (solver r)) - i))")
     (auto dest: Solve_iteration_opts)

declare Solve_loop.simps [simp del]

text \<open>Lines 187 to 194: the list \<open>cb_iters\<close> that \<open>Solve\<close> starts from.\<close>

definition callback_schedule :: "Options \<Rightarrow> real list" where
  "callback_schedule opt =
     (if num_cback_calls opt \<ge> 2
      then linspace 0 (of_int (max_iters opt - 1)) (num_cback_calls opt)
      else [100000000])"

text \<open>
  \<open>Solve\<close>: the callback schedule, the loop, and the restoration of the problem. The
  result holds the return code, the solver and the callback invocations of the run.
\<close>

definition Solve ::
  "'p Collab \<Rightarrow> 'p Solver
     \<Rightarrow> error + (ConvergenceResult \<times> 'p Solver \<times> (int \<times> real list \<times> real list) list)" where
  "Solve C s =
     (case Solve_loop C 0
             \<lparr>solver = s, cb_iters = callback_schedule (opts s), interm_calls = []\<rparr> of
        Inl e \<Rightarrow> Inl e
      | Inr (result, r) \<Rightarrow>
          let s' = solver r;
              s'' = (if solve_dual_problem (opts s')
                     then s'\<lparr>problem := Dualize C (problem s'),
                              opts := swap_x0_y0 (opts s')\<rparr>
                     else s')
          in Inr (result, s'', interm_calls r))"

text \<open>
  The accessors \<open>cur_primal_sol()\<close>, \<open>cur_dual_sol()\<close>, \<open>cur_primal_constr_sol()\<close> and
  \<open>cur_dual_constr_sol()\<close>, which undo the exchange of a dual solve. The fields have their
  names, so the accessors end in \<open>_get\<close>.
\<close>

definition cur_primal_sol_get :: "'p Solver \<Rightarrow> real list" where
  "cur_primal_sol_get s =
     (if solve_dual_problem (opts s) then cur_dual_sol s else cur_primal_sol s)"

definition cur_dual_sol_get :: "'p Solver \<Rightarrow> real list" where
  "cur_dual_sol_get s =
     (if solve_dual_problem (opts s) then cur_primal_sol s else cur_dual_sol s)"

definition cur_primal_constr_sol_get :: "'p Solver \<Rightarrow> real list" where
  "cur_primal_constr_sol_get s =
     (if solve_dual_problem (opts s) then cur_dual_constr_sol s else cur_primal_constr_sol s)"

definition cur_dual_constr_sol_get :: "'p Solver \<Rightarrow> real list" where
  "cur_dual_constr_sol_get s =
     (if solve_dual_problem (opts s) then cur_primal_constr_sol s else cur_dual_constr_sol s)"

subsection \<open>A problem to run the solver on\<close>

text \<open>
  Modelled from the spec: the class Problem and its \<open>Dualize\<close> (problem.cpp is not among
  the sources). The spec: a Problem "references K and the two prox lists", "owns diagonal
  preconditioners" and "Dualize(): exchanges the roles of G and F*, of K and -K^T, of
  primal and dual preconditioners". K is the list of its entries (row, column, value).
\<close>

record Problem =
  K_nrows :: nat
  K_ncols :: nat
  K_entries :: "(nat \<times> nat \<times> real) list"
  prox_g :: "string list"
  prox_fstar :: "string list"
  precond_tau :: "real list"
  precond_sigma :: "real list"

definition Problem_Dualize :: "Problem \<Rightarrow> Problem" where
  "Problem_Dualize p =
     \<lparr>K_nrows = K_ncols p, K_ncols = K_nrows p,
      K_entries = map (\<lambda>(r, c, v). (c, r, - v)) (K_entries p),
      prox_g = prox_fstar p, prox_fstar = prox_g p,
      precond_tau = precond_sigma p, precond_sigma = precond_tau p\<rparr>"

text \<open>
  A forward difference on two unknowns, a backend whose residuals fall below the
  tolerance at iteration 2 and whose current solution is constant in each of the four
  vectors, and a host that neither interrupts nor asks to stop.
\<close>

definition ex_problem :: Problem where
  "ex_problem =
     \<lparr>K_nrows = 1, K_ncols = 2, K_entries = [(0, 0, - 1), (0, 1, 1)],
      prox_g = [''square''], prox_fstar = [''ind_box01''],
      precond_tau = [1, 1], precond_sigma = [1 / 2]\<rparr>"

definition ex_collab :: "Problem Collab" where
  "ex_collab =
     \<lparr>Problem_Initialize = Inr, Dualize = Problem_Dualize,
      nrows = K_nrows, ncols = K_ncols,
      Backend_Initialize = (\<lambda>p opt. None),
      primal_residual = (\<lambda>i. if i < 2 then 1 else 0),
      dual_residual = (\<lambda>i. if i < 2 then 1 else 0),
      eps_primal = (\<lambda>i. 1 / 100), eps_dual = (\<lambda>i. 1 / 100),
      current_solution =
        (\<lambda>i (x, kx, y, kty).
           (map (\<lambda>u. 1) x, map (\<lambda>u. 2) kx, map (\<lambda>u. 3) y, map (\<lambda>u. 4) kty)),
      stopping_cb = (\<lambda>i. False),
      interm_cb = (\<lambda>i x y. False)\<rparr>"

definition ex_opts :: Options where
  "ex_opts = \<lparr>max_iters = 5, num_cback_calls = 1, verbose = False,
              solve_dual_problem = False, x0 = [3, 4], y0 = [7]\<rparr>"

definition ex_solver :: "Problem Solver" where
  "ex_solver = \<lparr>problem = ex_problem, opts = ex_opts,
                cur_primal_sol = [], cur_primal_constr_sol = [],
                cur_dual_sol = [], cur_dual_constr_sol = []\<rparr>"

text \<open>
  Variants of the example: a host that interrupts in iteration 0 while the residuals are
  below the tolerance, one that interrupts in iteration 1, and a solver set to solve the
  dual problem.
\<close>

definition ex_collab_stop_converged :: "Problem Collab" where
  "ex_collab_stop_converged =
     ex_collab\<lparr>primal_residual := (\<lambda>i. 0), dual_residual := (\<lambda>i. 0),
               stopping_cb := (\<lambda>i. True)\<rparr>"

definition ex_collab_late_stop :: "Problem Collab" where
  "ex_collab_late_stop =
     ex_collab\<lparr>primal_residual := (\<lambda>i. if i < 1 then 1 else 0),
               dual_residual := (\<lambda>i. if i < 1 then 1 else 0),
               stopping_cb := (\<lambda>i. i = 1)\<rparr>"

definition ex_solver_dual :: "Problem Solver" where
  "ex_solver_dual = ex_solver\<lparr>opts := ex_opts\<lparr>solve_dual_problem := True\<rparr>\<rparr>"

text \<open>
  The invariant of the loop that keeps \<open>front()\<close> defined: the list is not empty and its
  last point is not below the last iteration.
\<close>

definition schedule_ok :: "'p Run \<Rightarrow> bool" where
  "schedule_ok r = (case cb_iters r of [] \<Rightarrow> False
                 | c # cs \<Rightarrow> of_int (max_iters (opts (solver r)) - 1) \<le> last (c # cs))"

section \<open>The host binding (prost.cpp)\<close>

text \<open>
  The MEX entry point and its command handlers. An array of the host is its class with its
  dimensions and data; \<open>mxCreateDoubleMatrix\<close> gives a zero-filled matrix.
\<close>

datatype mxArray =
    mxDouble nat nat "real list"
  | mxString string
  | mxStruct "(string \<times> mxArray) list"

text \<open>
  \<open>std::copy(first, last, out)\<close> into a buffer of fixed length: the elements of the source
  replace the leading elements of the buffer; a source longer than the buffer writes past its
  end.
\<close>

definition std_copy :: "real list \<Rightarrow> real list \<Rightarrow> error + real list" where
  "std_copy src dst =
     (if length src \<le> length dst then Inr (src @ drop (length src) dst)
      else Inl (UndefinedBehaviour ''write past the end of the buffer''))"

subsection \<open>solve_problem\<close>

text \<open>
  What \<open>SolveProblem\<close> receives from outside prost.cpp: whether \<open>cudaSetDevice\<close> succeeded,
  and what the factory functions (factory.hpp is not among the sources) make of the
  arguments: the problem of \<open>CreateProblem(prhs[0], nrows, ncols)\<close>, the backend of
  \<open>CreateBackend(prhs[3])\<close> and the options of \<open>CreateSolverOptions(prhs[4])\<close>, or the
  message of the exception thrown instead. \<open>SolveProblem\<close> does not look at the argument
  count: the model is of a call that has its five arguments.
\<close>

record 'p SolveProblemArgs =
  sp_device_ok :: bool
  sp_CreateProblem :: "string + 'p"
  sp_CreateBackend :: "string option"
  sp_CreateSolverOptions :: "string + Options"

definition result_string :: "ConvergenceResult \<Rightarrow> string" where
  "result_string result =
     (case result of
        kConverged \<Rightarrow> ''Converged.''
      | kStoppedMaxIters \<Rightarrow> ''Reached maximum iterations.''
      | kStoppedUser \<Rightarrow> ''Stopped by user.'')"

definition fieldnames :: "string list" where
  "fieldnames = [''x'', ''y'', ''z'', ''w'', ''result'']"

text \<open>
  The output struct from the solver after \<open>Solve\<close>: four zero matrices of the sizes of the
  problem, filled by \<open>std::copy\<close> in the source's order (dual, primal, primal constraint,
  dual constraint), and the string of the return code.
\<close>

definition copy_result ::
  "'p Collab \<Rightarrow> ConvergenceResult \<Rightarrow> 'p Solver \<Rightarrow> error + mxArray" where
  "copy_result C result s =
     (let nc = ncols C (problem s); nr = nrows C (problem s) in
      case std_copy (cur_dual_sol_get s) (replicate nr 0) of
        Inl e \<Rightarrow> Inl e
      | Inr mex_dual_sol \<Rightarrow>
      (case std_copy (cur_primal_sol_get s) (replicate nc 0) of
        Inl e \<Rightarrow> Inl e
      | Inr mex_primal_sol \<Rightarrow>
      (case std_copy (cur_primal_constr_sol_get s) (replicate nr 0) of
        Inl e \<Rightarrow> Inl e
      | Inr mex_primal_constr_sol \<Rightarrow>
      (case std_copy (cur_dual_constr_sol_get s) (replicate nc 0) of
        Inl e \<Rightarrow> Inl e
      | Inr mex_dual_constr_sol \<Rightarrow>
          Inr (mxStruct (zip fieldnames
                 [mxDouble nc 1 mex_primal_sol,
                  mxDouble nr 1 mex_dual_sol,
                  mxDouble nr 1 mex_primal_constr_sol,
                  mxDouble nc 1 mex_dual_constr_sol,
                  mxString (result_string result)]))))))"

definition SolveProblem :: "'p Collab \<Rightarrow> 'p SolveProblemArgs \<Rightarrow> error + mxArray" where
  "SolveProblem C a =
     (if \<not> sp_device_ok a then Inl (Exception ''Invalid CUDA device.'')
      else case sp_CreateProblem a of
        Inl what \<Rightarrow> Inl (Exception what)
      | Inr p \<Rightarrow>
      (case sp_CreateBackend a of
        Some what \<Rightarrow> Inl (Exception what)
      | None \<Rightarrow>
      (case sp_CreateSolverOptions a of
        Inl what \<Rightarrow> Inl (Exception what)
      | Inr opt \<Rightarrow>
      (case Initialize C \<lparr>problem = p, opts = opt, cur_primal_sol = [],
                           cur_primal_constr_sol = [], cur_dual_sol = [],
                           cur_dual_constr_sol = []\<rparr> of
        Inl e \<Rightarrow> Inl e
      | Inr s1 \<Rightarrow>
      (case Solve C s1 of
        Inl e \<Rightarrow> Inl e
      | Inr (result, s2, calls) \<Rightarrow> copy_result C result s2)))))"

subsection \<open>eval_prox\<close>

text \<open>
  The base class of prox.hpp. Its members \<open>index_\<close>, \<open>size_\<close> and \<open>diagsteps_\<close> are the
  fields; \<open>size()\<close> returns \<open>size_\<close>.
\<close>

record Prox =
  prox_index :: nat
  prox_size :: nat
  prox_diagsteps :: bool

text \<open>
  What \<open>EvalProx\<close> receives: the argument counts, whether \<open>cudaSetDevice\<close> succeeded, the
  first two dimensions and the data of \<open>prhs[1]\<close>, the scalar of \<open>prhs[2]\<close>, the data of
  \<open>prhs[3]\<close>, the prox of \<open>CreateProx(prhs[0])\<close> after its \<open>Initialize\<close> (or the message of
  the exception thrown), and \<open>Prox::Eval\<close> on host vectors (defined in another translation
  unit), which returns the result and the time in milliseconds or throws.
\<close>

record EvalProxArgs =
  ep_nlhs :: int
  ep_nrhs :: int
  ep_device_ok :: bool
  ep_dims :: "nat \<times> nat"
  ep_arg :: "real list"
  ep_tau :: real
  ep_tau_diag :: "real list"
  ep_CreateProx :: "string + Prox"
  ep_Eval :: "Prox \<Rightarrow> real list \<Rightarrow> real list \<Rightarrow> real \<Rightarrow> string + (real list \<times> real)"

text \<open>\<open>operator<<\<close> of an unsigned integer: its decimal digits.\<close>

function show_nat :: "nat \<Rightarrow> string" where
  "show_nat n =
     (if n < 10 then [''0123456789'' ! n]
      else show_nat (n div 10) @ [''0123456789'' ! (n mod 10)])"
  by pat_completeness auto
termination
  by (relation "measure (\<lambda>n. n)") auto

declare show_nat.simps [simp del]

text \<open>
  \<open>std::vector<real> h(p, p + n)\<close> reads \<open>n\<close> values from the data of a host array; past the
  end of the data the read is undefined behaviour.
\<close>

definition read_doubles :: "real list \<Rightarrow> nat \<Rightarrow> error + real list" where
  "read_doubles buf n =
     (if n \<le> length buf then Inr (take n buf)
      else Inl (UndefinedBehaviour ''read past the end of the array''))"

text \<open>The outputs \<open>plhs[0]\<close> and \<open>plhs[1]\<close>, in this order.\<close>

definition EvalProx :: "EvalProxArgs \<Rightarrow> error + mxArray list" where
  "EvalProx a =
     (if ep_nrhs a < 4 then Inl (Exception ''eval_prox: At least four inputs required.'')
      else if ep_nlhs a = 0 then Inl (Exception ''One output (result of prox) required.'')
      else if \<not> ep_device_ok a then Inl (Exception ''Invalid CUDA device.'')
      else
        let n = fst (ep_dims a) in
        if snd (ep_dims a) \<noteq> 1 then Inl (Exception ''Input to prox should be a vector!'')
        else case ep_CreateProx a of
          Inl what \<Rightarrow> Inl (Exception what)
        | Inr prox \<Rightarrow>
            if prox_size prox \<noteq> n
            then Inl (Exception (''Size of input argument ('' @ show_nat n
                        @ '') doesn't match size of prox ('' @ show_nat (prox_size prox)
                        @ '')!'' @ [CHR 0x0A]))
            else
              (case read_doubles (ep_arg a) n of
                 Inl e \<Rightarrow> Inl e
               | Inr h_arg \<Rightarrow>
              (case read_doubles (ep_tau_diag a) n of
                 Inl e \<Rightarrow> Inl e
               | Inr h_tau \<Rightarrow>
              (case ep_Eval a prox h_arg h_tau (ep_tau a) of
                 Inl what \<Rightarrow> Inl (Exception what)
               | Inr (h_result, milliseconds) \<Rightarrow>
              (case std_copy h_result (replicate n 0) of
                 Inl e \<Rightarrow> Inl e
               | Inr res \<Rightarrow> Inr [mxDouble n 1 res, mxDouble 1 1 [milliseconds]])))))"

subsection \<open>The dispatcher\<close>

text \<open>
  What the dispatcher does to the host, in order. \<open>mexErrMsgTxt\<close> belongs to the host's
  interface; whether it returns to its caller is the parameter \<open>errmsg_returns\<close> of
  \<open>mexFunction\<close>. The interface documents that it does not return (it ends the MEX
  function and gives control back to the prompt), and the first statement of \<open>mexFunction\<close>
  relies on that: after the usage message there is no \<open>return\<close>, and the next statement reads
  \<open>prhs[0]\<close>.
\<close>

datatype event =
    ev_mexErrMsgTxt string
  | ev_mexLock
  | ev_mexUnlock
  | ev_cudaDeviceReset

datatype mex_end = Returned | EndedByHost | ReadsMissingArgument

text \<open>
  A handler's run: the events it causes and the message of the \<open>Exception\<close> it throws, if any.
\<close>

type_synonym handler_run = "event list \<times> string option"

definition Init :: handler_run where
  "Init = ([ev_mexLock], None)"

definition Release :: handler_run where
  "Release = ([ev_mexUnlock, ev_cudaDeviceReset], None)"

text \<open>
  The registry. The runs of the five handlers that depend on the arguments of the call are
  given by \<open>run\<close>, by command name.
\<close>

definition cmd_reg :: "(string \<Rightarrow> handler_run) \<Rightarrow> (string \<times> handler_run) list" where
  "cmd_reg run =
     [(''init'', Init),
      (''release'', Release),
      (''solve_problem'', run ''solve_problem''),
      (''eval_linop'', run ''eval_linop''),
      (''eval_prox'', run ''eval_prox''),
      (''list_gpus'', run ''list_gpus''),
      (''set_gpu'', run ''set_gpu'')]"

definition mexFunction ::
  "bool \<Rightarrow> (string \<Rightarrow> handler_run) \<Rightarrow> int \<Rightarrow> string \<Rightarrow> event list \<times> mex_end" where
  "mexFunction errmsg_returns run nrhs cmd =
     (if nrhs = 0 then
        ([ev_mexErrMsgTxt ''Usage: prost_(command, arg1, arg2, ...);''],
         if errmsg_returns then ReadsMissingArgument else EndedByHost)
      else
        let (evs, thrown) =
              (case map_of (cmd_reg run) cmd of
                 Some r \<Rightarrow> r
               | None \<Rightarrow> ([], Some (''Unknown command '' @ [CHR 0x27] @ cmd @ [CHR 0x27] @ ''.'')))
        in case thrown of
             None \<Rightarrow> (evs, Returned)
           | Some what \<Rightarrow>
               if errmsg_returns
               then (evs @ [ev_mexErrMsgTxt what] @ fst Release, Returned)
               else (evs @ [ev_mexErrMsgTxt what], EndedByHost))"

subsection \<open>Calls to run the handlers on\<close>

text \<open>The lengths of the four solution vectors, as the backend receives and returns them.\<close>

definition lengths4 ::
  "real list \<times> real list \<times> real list \<times> real list \<Rightarrow> nat \<times> nat \<times> nat \<times> nat" where
  "lengths4 v = (case v of (x, kx, y, kty) \<Rightarrow> (length x, length kx, length y, length kty))"

definition solver_lengths :: "'p Solver \<Rightarrow> nat \<times> nat \<times> nat \<times> nat" where
  "solver_lengths s =
     lengths4 (cur_primal_sol s, cur_primal_constr_sol s, cur_dual_sol s, cur_dual_constr_sol s)"

text \<open>
  \<open>solve_problem\<close> on the example problem, in the native and in the dual orientation;
  \<open>eval_prox\<close> on a prox of size 3 that applies the box indicator to every entry, with a
  vector of 3 entries, with a matrix of 3 rows and 2 columns, and with a vector of 3 entries
  while the selected device is invalid.
\<close>

definition ex_sp_args :: "Problem SolveProblemArgs" where
  "ex_sp_args = \<lparr>sp_device_ok = True, sp_CreateProblem = Inr ex_problem,
                 sp_CreateBackend = None, sp_CreateSolverOptions = Inr ex_opts\<rparr>"

definition ex_sp_args_dual :: "Problem SolveProblemArgs" where
  "ex_sp_args_dual = ex_sp_args\<lparr>sp_CreateSolverOptions := Inr (ex_opts\<lparr>solve_dual_problem := True\<rparr>)\<rparr>"

definition ex_prox :: Prox where
  "ex_prox = \<lparr>prox_index = 0, prox_size = 3, prox_diagsteps = False\<rparr>"

definition ex_ep_args :: EvalProxArgs where
  "ex_ep_args =
     \<lparr>ep_nlhs = 2, ep_nrhs = 4, ep_device_ok = True, ep_dims = (3, 1),
      ep_arg = [- 3 / 10, 1 / 2, 17 / 10], ep_tau = 1, ep_tau_diag = [1, 1, 1],
      ep_CreateProx = Inr ex_prox,
      ep_Eval = (\<lambda>prox arg tau_diag tau.
                   Inr (map (\<lambda>x. valof (Function1DIndBox01 (Num x) (Num tau) (Num 0) (Num 0)))
                          arg, 1 / 4))\<rparr>"

definition ex_ep_args_matrix :: EvalProxArgs where
  "ex_ep_args_matrix = ex_ep_args\<lparr>ep_dims := (3, 2), ep_arg := [0, 0, 0, 0, 0, 0]\<rparr>"

definition ex_ep_args_no_device :: EvalProxArgs where
  "ex_ep_args_no_device = ex_ep_args\<lparr>ep_device_ok := False\<rparr>"

section \<open>Facts about the machine scalars\<close>


lemma ilog2_bounds:
  "1 \<le> n \<Longrightarrow> 0 \<le> ilog2 n \<and> 2 ^ nat (ilog2 n) \<le> n \<and> n < 2 * 2 ^ nat (ilog2 n)"
proof (induction n rule: ilog2.induct)
  case (1 n)
  show ?case
  proof (cases "n < 2")
    case True
    then show ?thesis using 1(2) by (simp add: ilog2.simps)
  next
    case False
    then have h: "1 \<le> n div 2" by simp
    have ih: "0 \<le> ilog2 (n div 2) \<and> 2 ^ nat (ilog2 (n div 2)) \<le> n div 2
              \<and> n div 2 < 2 * 2 ^ nat (ilog2 (n div 2))"
      using 1(1) [OF False h] .
    have e: "ilog2 n = 1 + ilog2 (n div 2)" using False by (simp add: ilog2.simps)
    have n: "nat (ilog2 n) = Suc (nat (ilog2 (n div 2)))"
      using e ih by (simp add: Suc_nat_eq_nat_zadd1)
    have d: "2 * (n div 2) \<le> n \<and> n < 2 * (n div 2) + 2" by presburger
    have g1: "2 * 2 ^ nat (ilog2 (n div 2)) \<le> n" using ih d by linarith
    have g2: "n < 2 * (2 * 2 ^ nat (ilog2 (n div 2)))" using ih d by linarith
    show ?thesis using ih g1 g2 by (simp add: e n [unfolded e])
  qed
qed

lemma floor_log2_bounds:
  assumes "0 < x"
  shows "pow2 (floor_log2 x) \<le> x \<and> x < pow2 (floor_log2 x + 1)"
proof (cases "1 \<le> x")
  case True
  let ?n = "\<lfloor>x\<rfloor>"
  have n1: "1 \<le> ?n" using True by simp
  have b: "0 \<le> ilog2 ?n \<and> 2 ^ nat (ilog2 ?n) \<le> ?n \<and> ?n < 2 * 2 ^ nat (ilog2 ?n)"
    using ilog2_bounds [OF n1] .
  have lo: "(2::real) ^ nat (ilog2 ?n) \<le> x"
  proof -
    have "real_of_int (2 ^ nat (ilog2 ?n)) \<le> real_of_int ?n" using b by linarith
    also have "\<dots> \<le> x" by simp
    finally show ?thesis by simp
  qed
  have hi: "x < 2 * (2::real) ^ nat (ilog2 ?n)"
  proof -
    have "?n + 1 \<le> 2 * 2 ^ nat (ilog2 ?n)" using b by linarith
    then have "real_of_int (?n + 1) \<le> real_of_int (2 * 2 ^ nat (ilog2 ?n))"
      by (simp only: of_int_le_iff)
    then have "real_of_int ?n + 1 \<le> 2 * 2 ^ nat (ilog2 ?n)" by simp
    moreover have "x < real_of_int ?n + 1" by linarith
    ultimately show ?thesis by linarith
  qed
  have p: "nat (ilog2 ?n + 1) = Suc (nat (ilog2 ?n))" using b by (simp add: nat_add_distrib)
  show ?thesis using True b lo hi by (simp add: floor_log2_def pow2_def p)
next
  case False
  let ?m = "\<lceil>1 / x\<rceil> - 1"
  have y: "1 < 1 / x" using False assms by simp
  have m1: "1 \<le> ?m" using y by linarith
  have b: "0 \<le> ilog2 ?m \<and> 2 ^ nat (ilog2 ?m) \<le> ?m \<and> ?m < 2 * 2 ^ nat (ilog2 ?m)"
    using ilog2_bounds [OF m1] .
  have lo: "(2::real) ^ nat (ilog2 ?m) < 1 / x"
  proof -
    have "real_of_int (2 ^ nat (ilog2 ?m)) \<le> real_of_int ?m" using b by linarith
    also have "\<dots> < 1 / x" by linarith
    finally show ?thesis by simp
  qed
  have hi: "1 / x \<le> 2 * (2::real) ^ nat (ilog2 ?m)"
  proof -
    have "?m + 1 \<le> 2 * 2 ^ nat (ilog2 ?m)" using b by linarith
    then have "real_of_int (?m + 1) \<le> real_of_int (2 * 2 ^ nat (ilog2 ?m))"
      by (simp only: of_int_le_iff)
    then have "real_of_int ?m + 1 \<le> 2 * 2 ^ nat (ilog2 ?m)" by simp
    moreover have "1 / x \<le> real_of_int ?m + 1" by linarith
    ultimately show ?thesis by linarith
  qed
  have x1: "x < 1 / 2 ^ nat (ilog2 ?m)"
    using lo assms by (simp add: field_simps)
  have x2: "1 / (2 * 2 ^ nat (ilog2 ?m)) \<le> x"
    using hi assms by (simp add: field_simps)
  have e: "floor_log2 x = - (ilog2 ?m + 1)" using False by (simp add: floor_log2_def)
  have q1: "pow2 (- (ilog2 ?m + 1)) = 1 / (2 * 2 ^ nat (ilog2 ?m))"
    using b by (simp add: pow2_def nat_add_distrib)
  have q2: "pow2 (- (ilog2 ?m + 1) + 1) = 1 / 2 ^ nat (ilog2 ?m)"
    using b by (cases "ilog2 ?m = 0") (simp_all add: pow2_def)
  show ?thesis using x1 x2 by (simp only: e q1 q2 simp_thms)
qed

lemma round_half_even_nearest: "\<bar>y - of_int (round_half_even y)\<bar> \<le> 1 / 2"
  by (auto simp: round_half_even_def Let_def abs_le_iff)

text \<open>
  The rounded magnitude is a multiple of the spacing \<open>2^q\<close> at most half of it away; when
  the exact result of an operation is a number of the format, the operation returns it.
\<close>

lemma pow2_pos: "0 < pow2 q"
  by (simp add: pow2_def)

lemma abs_scale:
  fixes x c n :: real
  assumes "0 < c"
  shows "\<bar>x / c - n\<bar> * c = \<bar>x - n * c\<bar>"
proof -
  have "\<bar>x / c - n\<bar> * c = \<bar>(x / c - n) * c\<bar>" using assms by (simp add: abs_mult)
  also have "(x / c - n) * c = x - n * c" using assms by (simp add: left_diff_distrib)
  finally show ?thesis .
qed

lemma round_mag_nearest:
  assumes "round_mag f x = Some r"
  shows "\<bar>x - r\<bar> \<le> pow2 (max (floor_log2 x) (1 - emax f) - (int (prec f) - 1)) / 2"
proof -
  let ?q = "max (floor_log2 x) (1 - emax f) - (int (prec f) - 1)"
  let ?n = "real_of_int (round_half_even (x / pow2 ?q))"
  have r: "r = ?n * pow2 ?q"
    using assms by (simp add: round_mag_def Let_def split: if_splits)
  have "\<bar>x / pow2 ?q - ?n\<bar> \<le> 1 / 2"
    by (rule round_half_even_nearest)
  then have "\<bar>x / pow2 ?q - ?n\<bar> * pow2 ?q \<le> 1 / 2 * pow2 ?q"
    using pow2_pos [of ?q] by (simp only: mult_le_cancel_right_pos)
  then have "\<bar>x - ?n * pow2 ?q\<bar> \<le> 1 / 2 * pow2 ?q"
    by (simp only: abs_scale [OF pow2_pos])
  then show ?thesis by (simp add: r)
qed










section \<open>Properties of the scalar prox functions\<close>






text \<open>
  C9, as amended. Each indicator prox function is idempotent, for every \<open>x0\<close> and across
  different step sizes and parameters of the two applications. For every \<open>x0\<close> other than NaN
  its output lies in the constraint set: \<open>(-\<infinity>, 0]\<close> for IndLeq0, \<open>[0, \<infinity>)\<close> for IndGeq0 and
  \<open>[0, 1]\<close> for IndBox01; IndEq0 returns 0 for every \<open>x0\<close>. On NaN the other three return NaN.
\<close>

theorem indicator_prox_idempotent_feasible:
  fixes x0 tau alpha beta tau' alpha' beta' :: scalar
  shows "Function1DIndLeq0 (Function1DIndLeq0 x0 tau alpha beta) tau' alpha' beta'
           = Function1DIndLeq0 x0 tau alpha beta
       \<and> Function1DIndGeq0 (Function1DIndGeq0 x0 tau alpha beta) tau' alpha' beta'
           = Function1DIndGeq0 x0 tau alpha beta
       \<and> Function1DIndEq0 (Function1DIndEq0 x0 tau alpha beta) tau' alpha' beta'
           = Function1DIndEq0 x0 tau alpha beta
       \<and> Function1DIndBox01 (Function1DIndBox01 x0 tau alpha beta) tau' alpha' beta'
           = Function1DIndBox01 x0 tau alpha beta
       \<and> Function1DIndEq0 x0 tau alpha beta = Num 0
       \<and> (x0 \<noteq> NaN \<longrightarrow>
             fle (Function1DIndLeq0 x0 tau alpha beta) (Num 0)
           \<and> fge (Function1DIndGeq0 x0 tau alpha beta) (Num 0)
           \<and> fge (Function1DIndBox01 x0 tau alpha beta) (Num 0)
           \<and> fle (Function1DIndBox01 x0 tau alpha beta) (Num 1))
       \<and> Function1DIndLeq0 NaN tau alpha beta = NaN
       \<and> Function1DIndGeq0 NaN tau alpha beta = NaN
       \<and> Function1DIndBox01 NaN tau alpha beta = NaN"
  by (cases x0)
     (auto simp: Function1DIndLeq0_def Function1DIndGeq0_def Function1DIndEq0_def
        Function1DIndBox01_def fle_def flt_def fgt_def fge_def key_def valof_def)

text \<open>The box indicator on 1.7, and the half-lines on it and on the negative zero.\<close>

theorem indicator_prox_idempotent_feasible_witness:
  "Num (17/10) \<noteq> NaN
   \<and> fle (Function1DIndLeq0 (Num (17/10)) (Num 1) (Num 0) (Num 0)) (Num 0)
   \<and> fge (Function1DIndGeq0 (Num (17/10)) (Num 1) (Num 0) (Num 0)) (Num 0)
   \<and> fge (Function1DIndBox01 (Num (17/10)) (Num 1) (Num 0) (Num 0)) (Num 0)
   \<and> fle (Function1DIndBox01 (Num (17/10)) (Num 1) (Num 0) (Num 0)) (Num 1)
   \<and> Function1DIndBox01 (Num (17/10)) (Num 1) (Num 0) (Num 0) = Num 1
   \<and> fge (Function1DIndGeq0 MinusZero (Num 1) (Num 0) (Num 0)) (Num 0)"
proof -
  have n: "Num (17/10) \<noteq> NaN" "MinusZero \<noteq> NaN" by simp_all
  have b: "Function1DIndBox01 (Num (17/10)) (Num 1) (Num 0) (Num 0) = Num 1"
    by (simp add: Function1DIndBox01_def fgt_def flt_def key_def valof_def)
  show ?thesis
    using indicator_prox_idempotent_feasible [of "Num (17/10)" "Num 1" "Num 0" "Num 0"] n(1)
      indicator_prox_idempotent_feasible [of MinusZero "Num 1" "Num 0" "Num 0"] n(2) b
    by blast
qed

text \<open>
  C9 as stated fails: on NaN every comparison is false, so IndLeq0, IndGeq0 and IndBox01
  return their argument, and NaN is in none of the constraint sets.
\<close>

theorem indicator_prox_NaN_counterexample:
  "Function1DIndLeq0 NaN (Num 1) (Num 0) (Num 0) = NaN \<and> \<not> fle NaN (Num 0)
   \<and> Function1DIndGeq0 NaN (Num 1) (Num 0) (Num 0) = NaN \<and> \<not> fge NaN (Num 0)
   \<and> Function1DIndBox01 NaN (Num 1) (Num 0) (Num 0) = NaN
   \<and> \<not> fge NaN (Num 0) \<and> \<not> fle NaN (Num 1)"
  by (simp add: Function1DIndLeq0_def Function1DIndGeq0_def Function1DIndBox01_def
      fle_def flt_def fgt_def fge_def)

section \<open>Facts about the loop of Solve\<close>

lemma Solve_iteration_Inr:
  "cb_iters r \<noteq> [] \<Longrightarrow> \<exists>res r'. Solve_iteration C i r = Inr (res, r')"
  by (auto simp: Solve_iteration_def Let_def split: list.splits if_splits prod.splits)

lemma Solve_iteration_sched:
  assumes "schedule_ok r" and "Solve_iteration C i r = Inr (None, r')"
    and "i + 1 < max_iters (opts (solver r))"
  shows "schedule_ok r'"
  using assms
  by (auto simp: Solve_iteration_def schedule_ok_def Let_def split: list.splits if_splits prod.splits)

lemma Solve_loop_Inr:
  "(i < max_iters (opts (solver r)) \<longrightarrow> schedule_ok r) \<Longrightarrow> \<exists>res r'. Solve_loop C i r = Inr (res, r')"
proof (induction C i r rule: Solve_loop.induct)
  case (1 C i r)
  show ?case
  proof (cases "i < max_iters (opts (solver r))")
    case False
    then show ?thesis by (simp add: Solve_loop.simps)
  next
    case True
    with 1 have ok: "schedule_ok r" by simp
    then have "cb_iters r \<noteq> []" by (auto simp: schedule_ok_def split: list.splits)
    then obtain res r' where it: "Solve_iteration C i r = Inr (res, r')"
      using Solve_iteration_Inr by blast
    show ?thesis
    proof (cases res)
      case (Some a)
      then show ?thesis using True it by (simp add: Solve_loop.simps)
    next
      case None
      have o: "opts (solver r') = opts (solver r)" using it by (rule Solve_iteration_opts)
      have "i + 1 < max_iters (opts (solver r')) \<longrightarrow> schedule_ok r'"
        using Solve_iteration_sched [OF ok] it None o by auto
      then have "\<exists>res r''. Solve_loop C (i + 1) r' = Inr (res, r'')"
        using 1(1) [OF True it [unfolded None]] by auto
      then show ?thesis using True it None by (simp add: Solve_loop.simps)
    qed
  qed
qed

lemma Solve_iteration_frame:
  "Solve_iteration C i r = Inr (res, r') \<Longrightarrow>
     opts (solver r') = opts (solver r) \<and> problem (solver r') = problem (solver r)"
  by (auto simp: Solve_iteration_def Let_def split: list.splits if_splits prod.splits)

lemma Solve_loop_frame:
  "Solve_loop C i r = Inr (res, r') \<Longrightarrow>
     opts (solver r') = opts (solver r) \<and> problem (solver r') = problem (solver r)"
proof (induction C i r rule: Solve_loop.induct)
  case (1 C i r)
  show ?case
  proof (cases "i < max_iters (opts (solver r))")
    case False
    then show ?thesis using 1(2) by (simp add: Solve_loop.simps)
  next
    case True
    show ?thesis
    proof (cases "Solve_iteration C i r")
      case (Inl e)
      then show ?thesis using True 1(2) by (simp add: Solve_loop.simps)
    next
      case (Inr a)
      obtain x r1 where a: "a = (x, r1)" by (cases a)
      have fr: "opts (solver r1) = opts (solver r) \<and> problem (solver r1) = problem (solver r)"
        using Inr a Solve_iteration_frame by blast
      show ?thesis
      proof (cases x)
        case (Some c)
        then show ?thesis using True Inr a 1(2) fr by (simp add: Solve_loop.simps)
      next
        case None
        have "Solve_loop C (i + 1) r1 = Inr (res, r')"
          using True Inr a None 1(2) by (simp add: Solve_loop.simps)
        then show ?thesis using 1(1) [OF True Inr [unfolded a None]] fr by simp
      qed
    qed
  qed
qed

lemma linspace_last:
  assumes "2 \<le> n"
  shows "linspace a b n \<noteq> [] \<and> last (linspace a b n) = b"
proof -
  have n: "nat n = Suc (nat n - 1)" using assms by simp
  have ne: "[0..<nat n] \<noteq> []" using assms by simp
  have l: "last [0..<nat n] = nat n - 1" using assms by (subst n) (simp del: upt_Suc)
  have "real (nat n - 1) = of_int n - 1" using assms by (simp add: of_nat_diff)
  moreover have "real_of_int n - 1 \<noteq> 0" using assms by simp
  ultimately show ?thesis using ne l by (simp add: linspace_def last_map)
qed

lemma initial_schedule_ok:
  assumes "2 \<le> num_cback_calls (opts s) \<or> max_iters (opts s) \<le> 100000001"
  shows "schedule_ok \<lparr>solver = s, cb_iters = callback_schedule (opts s), interm_calls = []\<rparr>"
proof (cases "2 \<le> num_cback_calls (opts s)")
  case True
  then show ?thesis
    using linspace_last [OF True, of 0 "of_int (max_iters (opts s) - 1)"]
    by (auto simp: schedule_ok_def callback_schedule_def split: list.splits)
next
  case False
  then show ?thesis using assms by (simp add: schedule_ok_def callback_schedule_def)
qed

lemma Solve_iteration_quiet:
  assumes "cb_iters r \<noteq> []" "\<not> stopping_cb C i" "\<not> residuals_below C i"
    "\<forall>x y. \<not> interm_cb C (i + 1) x y"
  shows "\<exists>r'. Solve_iteration C i r = Inr (None, r')"
  using assms
  by (auto simp: Solve_iteration_def Let_def split: list.splits if_splits prod.splits)

lemma Solve_loop_quiet_prefix:
  assumes "i \<le> k" "k < max_iters (opts (solver r))" "schedule_ok r"
    "\<forall>j. i \<le> j \<and> j < k \<longrightarrow>
       \<not> stopping_cb C j \<and> \<not> residuals_below C j \<and> (\<forall>x y. \<not> interm_cb C (j + 1) x y)"
  shows "\<exists>r'. Solve_loop C i r = Solve_loop C k r' \<and> schedule_ok r'
          \<and> opts (solver r') = opts (solver r) \<and> problem (solver r') = problem (solver r)"
  using assms
proof (induction C i r rule: Solve_loop.induct)
  case (1 C i r)
  show ?case
  proof (cases "i = k")
    case True
    then show ?thesis using 1(4) by auto
  next
    case False
    then have lt: "i < k" using 1(2) by simp
    then have iM: "i < max_iters (opts (solver r))" using 1(3) by simp
    have ne: "cb_iters r \<noteq> []" using 1(4) by (auto simp: schedule_ok_def split: list.splits)
    have q: "\<not> stopping_cb C i \<and> \<not> residuals_below C i \<and> (\<forall>x y. \<not> interm_cb C (i + 1) x y)"
      using 1(5) lt by simp
    obtain r1 where it: "Solve_iteration C i r = Inr (None, r1)"
      using Solve_iteration_quiet [OF ne] q by blast
    have fr: "opts (solver r1) = opts (solver r) \<and> problem (solver r1) = problem (solver r)"
      using it Solve_iteration_frame by blast
    have ok1: "schedule_ok r1"
      using Solve_iteration_sched [OF 1(4) it] lt 1(3) by simp
    have step: "Solve_loop C i r = Solve_loop C (i + 1) r1"
      using iM it by (simp add: Solve_loop.simps)
    have "\<exists>r'. Solve_loop C (i + 1) r1 = Solve_loop C k r' \<and> schedule_ok r'
          \<and> opts (solver r') = opts (solver r1) \<and> problem (solver r') = problem (solver r1)"
      using 1(1) [OF iM it] lt 1(3) ok1 1(5) fr by simp
    then show ?thesis using step fr by auto
  qed
qed

lemma Solve_iteration_no_calls:
  "num_cback_calls (opts (solver r)) < 1 \<Longrightarrow> Solve_iteration C i r = Inr (res, r') \<Longrightarrow>
     interm_calls r' = interm_calls r"
  by (auto simp: Solve_iteration_def Let_def split: list.splits if_splits prod.splits)

lemma Solve_loop_no_calls:
  "num_cback_calls (opts (solver r)) < 1 \<Longrightarrow> Solve_loop C i r = Inr (res, r') \<Longrightarrow>
     interm_calls r' = interm_calls r"
proof (induction C i r rule: Solve_loop.induct)
  case (1 C i r)
  show ?case
  proof (cases "i < max_iters (opts (solver r))")
    case False
    then show ?thesis using 1(3) by (simp add: Solve_loop.simps)
  next
    case True
    show ?thesis
    proof (cases "Solve_iteration C i r")
      case (Inl e)
      then show ?thesis using True 1(3) by (simp add: Solve_loop.simps)
    next
      case (Inr a)
      obtain x r1 where a: "a = (x, r1)" by (cases a)
      have c1: "interm_calls r1 = interm_calls r"
        using Inr a 1(2) Solve_iteration_no_calls by blast
      have o1: "opts (solver r1) = opts (solver r)"
        using Inr a Solve_iteration_opts by blast
      show ?thesis
      proof (cases x)
        case (Some c)
        then show ?thesis using True Inr a 1(3) c1 by (simp add: Solve_loop.simps)
      next
        case None
        have "Solve_loop C (i + 1) r1 = Inr (res, r')"
          using True Inr a None 1(3) by (simp add: Solve_loop.simps)
        then show ?thesis using 1(1) [OF True Inr [unfolded a None]] c1 o1 1(2) by simp
      qed
    qed
  qed
qed

lemma Solve_iteration_single_due:
  assumes "num_cback_calls (opts (solver r)) = 1" "cb_iters r = [100000000]"
    "interm_calls r = []" "i < max_iters (opts (solver r))"
    "max_iters (opts (solver r)) \<le> 100000001"
    "stopping_cb C i \<or> residuals_below C i \<or> i = max_iters (opts (solver r)) - 1"
  shows "\<exists>res r' x y. Solve_iteration C i r = Inr (res, r') \<and> interm_calls r' = [(i + 1, x, y)]
           \<and> (res = None \<longrightarrow> i = max_iters (opts (solver r)) - 1)"
  using assms
  by (auto simp: Solve_iteration_def Let_def split: list.splits if_splits prod.splits)

lemma Solve_iteration_single_not_due:
  assumes "cb_iters r = [100000000]" "i < max_iters (opts (solver r))"
    "max_iters (opts (solver r)) \<le> 100000001"
    "\<not> (stopping_cb C i \<or> residuals_below C i \<or> i = max_iters (opts (solver r)) - 1)"
  shows "Solve_iteration C i r = Inr (None, r)"
  using assms
  by (auto simp: Solve_iteration_def Let_def split: list.splits if_splits prod.splits)

lemma Solve_loop_single_call:
  assumes "num_cback_calls (opts (solver r)) = 1" "cb_iters r = [100000000]"
    "interm_calls r = []" "i < max_iters (opts (solver r))"
    "max_iters (opts (solver r)) \<le> 100000001"
  shows "\<exists>res r' k x y. Solve_loop C i r = Inr (res, r') \<and> interm_calls r' = [(k, x, y)]
           \<and> i + 1 \<le> k \<and> k \<le> max_iters (opts (solver r))
           \<and> (stopping_cb C (k - 1) \<or> residuals_below C (k - 1) \<or> k = max_iters (opts (solver r)))"
  using assms
proof (induction C i r rule: Solve_loop.induct)
  case (1 C i r)
  let ?M = "max_iters (opts (solver r))"
  show ?case
  proof (cases "stopping_cb C i \<or> residuals_below C i \<or> i = ?M - 1")
    case True
    obtain res r' x y where it: "Solve_iteration C i r = Inr (res, r')"
      and c: "interm_calls r' = [(i + 1, x, y)]" and l: "res = None \<longrightarrow> i = ?M - 1"
      using Solve_iteration_single_due [OF 1(2) 1(3) 1(4) 1(5) 1(6) True] by blast
    have o: "opts (solver r') = opts (solver r)" using it by (rule Solve_iteration_opts)
    show ?thesis
    proof (cases res)
      case (Some a)
      then have "Solve_loop C i r = Inr (a, r')" using it 1(5) by (simp add: Solve_loop.simps)
      then show ?thesis using c True 1(5) by auto
    next
      case None
      then have "i = ?M - 1" using l by simp
      then have "Solve_loop C i r = Inr (kStoppedMaxIters, r')"
        using it None 1(5) o by (simp add: Solve_loop.simps)
      then show ?thesis using c True 1(5) by auto
    qed
  next
    case False
    have it: "Solve_iteration C i r = Inr (None, r)"
      using Solve_iteration_single_not_due [OF 1(3) 1(5) 1(6) False] .
    have lt: "i + 1 < ?M" using False 1(5) by auto
    have step: "Solve_loop C i r = Solve_loop C (i + 1) r"
      using it 1(5) by (simp add: Solve_loop.simps)
    obtain res r' k x y where "Solve_loop C (i + 1) r = Inr (res, r')"
      "interm_calls r' = [(k, x, y)]" "i + 1 + 1 \<le> k" "k \<le> ?M"
      "stopping_cb C (k - 1) \<or> residuals_below C (k - 1) \<or> k = ?M"
      using 1(1) [OF 1(5) it refl refl 1(2) 1(3) 1(4) lt 1(6)] by blast
    then show ?thesis using step by force
  qed
qed

lemma Solve_Inr:
  assumes "2 \<le> num_cback_calls (opts s) \<or> max_iters (opts s) \<le> 100000001"
  shows "\<exists>res s' calls. Solve C s = Inr (res, s', calls)"
proof -
  let ?r = "\<lparr>solver = s, cb_iters = callback_schedule (opts s), interm_calls = []\<rparr>"
  have "schedule_ok ?r" using assms by (rule initial_schedule_ok)
  then obtain res r' where "Solve_loop C 0 ?r = Inr (res, r')"
    using Solve_loop_Inr [of 0 ?r C] by auto
  then show ?thesis by (simp add: Solve_def Let_def)
qed

lemma Solve_of_loop:
  assumes "Solve_loop C 0 \<lparr>solver = s, cb_iters = callback_schedule (opts s), interm_calls = []\<rparr>
             = Inr (res, r')"
  shows "\<exists>s'. Solve C s = Inr (res, s', interm_calls r')"
  using assms by (simp add: Solve_def Let_def)

lemma Solve_iteration_stopped:
  assumes "cb_iters r \<noteq> []" "stopping_cb C i"
  shows "\<exists>r'. Solve_iteration C i r = Inr (Some kStoppedUser, r')"
  using assms
  by (auto simp: Solve_iteration_def Let_def split: list.splits if_splits prod.splits)

lemma Solve_iteration_converged:
  assumes "cb_iters r \<noteq> []" "\<not> stopping_cb C i" "residuals_below C i"
  shows "\<exists>r'. Solve_iteration C i r = Inr (Some kConverged, r')"
  using assms
  by (auto simp: Solve_iteration_def Let_def split: list.splits if_splits prod.splits)

lemma Solve_iteration_converged_iff:
  assumes "cb_iters r \<noteq> []"
  shows "\<exists>res r'. Solve_iteration C i r = Inr (res, r') \<and>
           (res = Some kConverged \<longleftrightarrow>
              \<not> stopping_cb C i \<and>
              (residuals_below C i \<or>
               (\<exists>x y. interm_calls r' = interm_calls r @ [(i + 1, x, y)] \<and> interm_cb C (i + 1) x y)))"
  using assms
  by (auto simp: Solve_iteration_def Let_def split: list.splits if_splits prod.splits)

lemma Solve_loop_break:
  assumes "i < max_iters (opts (solver r))" "Solve_iteration C i r = Inr (Some c, r')"
  shows "Solve_loop C i r = Inr (c, r')"
  using assms by (simp add: Solve_loop.simps)

lemma Solve_reaches:
  assumes wf: "2 \<le> num_cback_calls (opts s) \<or> max_iters (opts s) \<le> 100000001"
    and k: "0 \<le> k" "k < max_iters (opts s)"
    and q: "\<forall>j. 0 \<le> j \<and> j < k \<longrightarrow>
       \<not> stopping_cb C j \<and> \<not> residuals_below C j \<and> (\<forall>x y. \<not> interm_cb C (j + 1) x y)"
  shows "\<exists>r. Solve_loop C 0 \<lparr>solver = s, cb_iters = callback_schedule (opts s), interm_calls = []\<rparr>
               = Solve_loop C k r \<and> cb_iters r \<noteq> [] \<and> opts (solver r) = opts s"
proof -
  let ?r = "\<lparr>solver = s, cb_iters = callback_schedule (opts s), interm_calls = []\<rparr>"
  have ok: "schedule_ok ?r" using wf by (rule initial_schedule_ok)
  have kM: "k < max_iters (opts (solver ?r))" using k by simp
  obtain r where "Solve_loop C 0 ?r = Solve_loop C k r" "schedule_ok r"
    "opts (solver r) = opts (solver ?r)"
    using Solve_loop_quiet_prefix [OF k(1) kM ok q] by blast
  then show ?thesis by (auto simp: schedule_ok_def split: list.splits)
qed

lemma swap_x0_y0_twice: "swap_x0_y0 (swap_x0_y0 opt) = opt"
  by (simp add: swap_x0_y0_def)

lemma swap_x0_y0_fields:
  "solve_dual_problem (swap_x0_y0 opt) = solve_dual_problem opt"
  "num_cback_calls (swap_x0_y0 opt) = num_cback_calls opt"
  "max_iters (swap_x0_y0 opt) = max_iters opt"
  "x0 (swap_x0_y0 opt) = y0 opt" "y0 (swap_x0_y0 opt) = x0 opt"
  by (simp_all add: swap_x0_y0_def)

lemma Initialize_dual:
  assumes "solve_dual_problem (opts s)" "Initialize C s = Inr s1"
  shows "\<exists>p. Problem_Initialize C (problem s) = Inr p \<and> problem s1 = Dualize C p
              \<and> opts s1 = swap_x0_y0 (opts s)"
  using assms
  by (auto simp: Initialize_def Let_def split: sum.splits option.splits)

lemma Solve_dual:
  assumes "solve_dual_problem (opts s1)" "Solve C s1 = Inr (res, s2, calls)"
  shows "problem s2 = Dualize C (problem s1) \<and> opts s2 = swap_x0_y0 (opts s1)"
proof -
  let ?r = "\<lparr>solver = s1, cb_iters = callback_schedule (opts s1), interm_calls = []\<rparr>"
  obtain r' where l: "Solve_loop C 0 ?r = Inr (res, r')"
    using assms(2) by (auto simp: Solve_def Let_def split: sum.splits)
  have fr: "opts (solver r') = opts s1 \<and> problem (solver r') = problem s1"
    using Solve_loop_frame [OF l] by simp
  show ?thesis using assms l fr by (auto simp: Solve_def Let_def)
qed

lemma Problem_Dualize_twice: "Problem_Dualize (Problem_Dualize q) = q"
  by (simp add: Problem_Dualize_def comp_def case_prod_unfold)

section \<open>Properties of the solver\<close>

text \<open>
  C10. The user-stop check comes before the convergence check. In any iteration that the
  loop executes (\<open>i < max_iters\<close>, \<open>front()\<close> defined) in which the stopping callback returns
  true, the body breaks with StoppedUser, whatever the residual test and the intermediate
  callback say. For \<open>Solve\<close> as a whole: when the schedule keeps \<open>front()\<close> defined
  (\<open>num_cback_calls \<ge> 2\<close>, or \<open>max_iters \<le> 10^8 + 1\<close>), the iterations before \<open>k\<close> neither
  stop nor converge, and the stopping callback returns true in iteration \<open>k\<close>, \<open>Solve\<close>
  returns StoppedUser, also when the convergence test holds in iteration \<open>k\<close>.
\<close>

theorem Solve_user_stop_precedes_convergence:
  fixes C :: "'p Collab"
  shows "(cb_iters r \<noteq> [] \<and> i < max_iters (opts (solver r)) \<and> stopping_cb C i
            \<longrightarrow> (\<exists>r'. Solve_iteration C i r = Inr (Some kStoppedUser, r')
                       \<and> Solve_loop C i r = Inr (kStoppedUser, r')))
       \<and> ((2 \<le> num_cback_calls (opts s) \<or> max_iters (opts s) \<le> 100000001)
            \<and> 0 \<le> k \<and> k < max_iters (opts s)
            \<and> (\<forall>j. 0 \<le> j \<and> j < k \<longrightarrow>
                  \<not> stopping_cb C j \<and> \<not> residuals_below C j
                  \<and> (\<forall>x y. \<not> interm_cb C (j + 1) x y))
            \<and> stopping_cb C k
            \<longrightarrow> (\<exists>s' calls. Solve C s = Inr (kStoppedUser, s', calls)))"
proof (intro conjI impI)
  assume h: "cb_iters r \<noteq> [] \<and> i < max_iters (opts (solver r)) \<and> stopping_cb C i"
  then obtain r' where "Solve_iteration C i r = Inr (Some kStoppedUser, r')"
    using Solve_iteration_stopped by blast
  then show "\<exists>r'. Solve_iteration C i r = Inr (Some kStoppedUser, r')
                \<and> Solve_loop C i r = Inr (kStoppedUser, r')"
    using h Solve_loop_break by blast
next
  assume h: "(2 \<le> num_cback_calls (opts s) \<or> max_iters (opts s) \<le> 100000001)
            \<and> 0 \<le> k \<and> k < max_iters (opts s)
            \<and> (\<forall>j. 0 \<le> j \<and> j < k \<longrightarrow>
                  \<not> stopping_cb C j \<and> \<not> residuals_below C j
                  \<and> (\<forall>x y. \<not> interm_cb C (j + 1) x y))
            \<and> stopping_cb C k"
  let ?r = "\<lparr>solver = s, cb_iters = callback_schedule (opts s), interm_calls = []\<rparr>"
  obtain r where r: "Solve_loop C 0 ?r = Solve_loop C k r" "cb_iters r \<noteq> []"
    "opts (solver r) = opts s"
    using Solve_reaches [of s k C] h by blast
  obtain r' where "Solve_iteration C k r = Inr (Some kStoppedUser, r')"
    using Solve_iteration_stopped [OF r(2)] h by blast
  then have "Solve_loop C k r = Inr (kStoppedUser, r')"
    using Solve_loop_break [of k r C] h r(3) by simp
  then show "\<exists>s' calls. Solve C s = Inr (kStoppedUser, s', calls)"
    using Solve_of_loop [of C s kStoppedUser r'] r(1) by auto
qed

text \<open>
  The host of \<open>ex_collab_late_stop\<close> interrupts in iteration 1, where the residuals are below
  the tolerance as well.
\<close>

theorem Solve_user_stop_precedes_convergence_witness:
  "stopping_cb ex_collab_late_stop 1 \<and> residuals_below ex_collab_late_stop 1
   \<and> (\<exists>r'. Solve_loop ex_collab_late_stop 1
               \<lparr>solver = ex_solver, cb_iters = [100000000], interm_calls = []\<rparr>
             = Inr (kStoppedUser, r'))
   \<and> (\<exists>s' calls. Solve ex_collab_late_stop ex_solver = Inr (kStoppedUser, s', calls))"
proof -
  let ?r = "\<lparr>solver = ex_solver, cb_iters = [100000000], interm_calls = []\<rparr>"
  have l: "cb_iters ?r \<noteq> [] \<and> 1 < max_iters (opts (solver ?r))"
    by (simp add: ex_solver_def ex_opts_def)
  have q: "\<forall>j. 0 \<le> j \<and> j < (1::int) \<longrightarrow>
             \<not> stopping_cb ex_collab_late_stop j \<and> \<not> residuals_below ex_collab_late_stop j
             \<and> (\<forall>x y. \<not> interm_cb ex_collab_late_stop (j + 1) x y)"
    by (simp add: ex_collab_late_stop_def ex_collab_def residuals_below_def)
  have h: "(2 \<le> num_cback_calls (opts ex_solver) \<or> max_iters (opts ex_solver) \<le> 100000001)
           \<and> (0::int) \<le> 1 \<and> 1 < max_iters (opts ex_solver)"
    by (simp add: ex_solver_def ex_opts_def)
  have st: "stopping_cb ex_collab_late_stop 1 \<and> residuals_below ex_collab_late_stop 1"
    by (simp add: ex_collab_late_stop_def ex_collab_def residuals_below_def)
  show ?thesis
    using Solve_user_stop_precedes_convergence [of ?r 1 ex_collab_late_stop ex_solver 1] q h st l
    by blast
qed

text \<open>
  C1, as amended. The body of the loop ends in the break with Converged exactly when the
  stopping callback did not return true in that iteration and either both residuals are
  strictly below their tolerance or the intermediate callback, invoked in that iteration,
  returns true; \<open>Solve_loop\<close> then returns Converged from that iteration. For \<open>Solve\<close> as a
  whole: after iterations that neither stop nor converge, an iteration without user stop
  whose residuals are below the tolerance makes \<open>Solve\<close> return Converged.
\<close>

theorem Solve_converged_iff:
  fixes C :: "'p Collab"
  shows "(cb_iters r \<noteq> [] \<and> i < max_iters (opts (solver r))
            \<longrightarrow> (\<exists>res r'. Solve_iteration C i r = Inr (res, r')
                   \<and> (res = Some kConverged \<longleftrightarrow>
                        \<not> stopping_cb C i \<and>
                        (residuals_below C i \<or>
                         (\<exists>x y. interm_calls r' = interm_calls r @ [(i + 1, x, y)]
                                \<and> interm_cb C (i + 1) x y)))
                   \<and> (res = Some kConverged \<longrightarrow> Solve_loop C i r = Inr (kConverged, r'))))
       \<and> ((2 \<le> num_cback_calls (opts s) \<or> max_iters (opts s) \<le> 100000001)
            \<and> 0 \<le> k \<and> k < max_iters (opts s)
            \<and> (\<forall>j. 0 \<le> j \<and> j < k \<longrightarrow>
                  \<not> stopping_cb C j \<and> \<not> residuals_below C j
                  \<and> (\<forall>x y. \<not> interm_cb C (j + 1) x y))
            \<and> \<not> stopping_cb C k \<and> residuals_below C k
            \<longrightarrow> (\<exists>s' calls. Solve C s = Inr (kConverged, s', calls)))"
proof (intro conjI impI)
  assume h: "cb_iters r \<noteq> [] \<and> i < max_iters (opts (solver r))"
  then obtain res r' where it: "Solve_iteration C i r = Inr (res, r')"
    and iff: "res = Some kConverged \<longleftrightarrow>
              \<not> stopping_cb C i \<and>
              (residuals_below C i \<or>
               (\<exists>x y. interm_calls r' = interm_calls r @ [(i + 1, x, y)] \<and> interm_cb C (i + 1) x y))"
    using Solve_iteration_converged_iff [of r C i] by blast
  have "res = Some kConverged \<longrightarrow> Solve_loop C i r = Inr (kConverged, r')"
    using it h Solve_loop_break by blast
  then show "\<exists>res r'. Solve_iteration C i r = Inr (res, r')
                   \<and> (res = Some kConverged \<longleftrightarrow>
                        \<not> stopping_cb C i \<and>
                        (residuals_below C i \<or>
                         (\<exists>x y. interm_calls r' = interm_calls r @ [(i + 1, x, y)]
                                \<and> interm_cb C (i + 1) x y)))
                   \<and> (res = Some kConverged \<longrightarrow> Solve_loop C i r = Inr (kConverged, r'))"
    using it iff by blast
next
  assume h: "(2 \<le> num_cback_calls (opts s) \<or> max_iters (opts s) \<le> 100000001)
            \<and> 0 \<le> k \<and> k < max_iters (opts s)
            \<and> (\<forall>j. 0 \<le> j \<and> j < k \<longrightarrow>
                  \<not> stopping_cb C j \<and> \<not> residuals_below C j
                  \<and> (\<forall>x y. \<not> interm_cb C (j + 1) x y))
            \<and> \<not> stopping_cb C k \<and> residuals_below C k"
  let ?r = "\<lparr>solver = s, cb_iters = callback_schedule (opts s), interm_calls = []\<rparr>"
  obtain r where r: "Solve_loop C 0 ?r = Solve_loop C k r" "cb_iters r \<noteq> []"
    "opts (solver r) = opts s"
    using Solve_reaches [of s k C] h by blast
  obtain r' where "Solve_iteration C k r = Inr (Some kConverged, r')"
    using Solve_iteration_converged [OF r(2)] h by blast
  then have "Solve_loop C k r = Inr (kConverged, r')"
    using Solve_loop_break [of k r C] h r(3) by simp
  then show "\<exists>s' calls. Solve C s = Inr (kConverged, s', calls)"
    using Solve_of_loop [of C s kConverged r'] r(1) by auto
qed

text \<open>The backend of \<open>ex_collab\<close> has its residuals below the tolerance from iteration 2 on.\<close>

theorem Solve_converged_iff_witness:
  "\<not> stopping_cb ex_collab 2 \<and> residuals_below ex_collab 2
   \<and> (\<exists>r'. Solve_loop ex_collab 2
               \<lparr>solver = ex_solver, cb_iters = [100000000], interm_calls = []\<rparr>
             = Inr (kConverged, r'))
   \<and> (\<exists>s' calls. Solve ex_collab ex_solver = Inr (kConverged, s', calls))"
proof -
  let ?r = "\<lparr>solver = ex_solver, cb_iters = [100000000], interm_calls = []\<rparr>"
  have l: "cb_iters ?r \<noteq> [] \<and> 2 < max_iters (opts (solver ?r))"
    by (simp add: ex_solver_def ex_opts_def)
  have q: "\<forall>j. 0 \<le> j \<and> j < (2::int) \<longrightarrow>
             \<not> stopping_cb ex_collab j \<and> \<not> residuals_below ex_collab j
             \<and> (\<forall>x y. \<not> interm_cb ex_collab (j + 1) x y)"
    by (simp add: ex_collab_def residuals_below_def)
  have h: "(2 \<le> num_cback_calls (opts ex_solver) \<or> max_iters (opts ex_solver) \<le> 100000001)
           \<and> (0::int) \<le> 2 \<and> 2 < max_iters (opts ex_solver)"
    by (simp add: ex_solver_def ex_opts_def)
  have st: "\<not> stopping_cb ex_collab 2 \<and> residuals_below ex_collab 2"
    by (simp add: ex_collab_def residuals_below_def)
  show ?thesis
    using Solve_converged_iff [of ?r 2 ex_collab ex_solver 2] q h st l
    by blast
qed

text \<open>
  C1 as stated fails: with \<open>ex_collab_stop_converged\<close> the residuals are below the tolerance
  in iteration 0 and the stopping callback returns true there; \<open>Solve\<close> returns StoppedUser,
  not Converged.
\<close>

theorem Solve_converged_counterexample:
  "residuals_below ex_collab_stop_converged 0
   \<and> Solve ex_collab_stop_converged ex_solver = Inr (kStoppedUser, ex_solver, [(1, [], [])])"
  by (simp add: Solve_def Solve_loop.simps Solve_iteration_def callback_schedule_def
      residuals_below_def ex_collab_stop_converged_def ex_collab_def ex_solver_def ex_opts_def
      Let_def)

text \<open>
  C2, as amended. With \<open>num_cback_calls \<ge> 2\<close> the schedule has \<open>num_cback_calls\<close> points,
  point \<open>k\<close> being \<open>(max_iters - 1) * k / (num_cback_calls - 1)\<close>, the last one
  \<open>max_iters - 1\<close>; below 2 it is the single point \<open>10^8\<close>. With \<open>num_cback_calls < 1\<close> (and
  \<open>max_iters \<le> 10^8 + 1\<close>, which keeps \<open>front()\<close> defined) \<open>Solve\<close> returns and the intermediate
  callback is never invoked. With \<open>num_cback_calls = 1\<close> (and \<open>1 \<le> max_iters \<le> 10^8 + 1\<close>)
  it is invoked exactly once, in the iteration that ends the loop: one that stops, one whose
  residuals are below the tolerance, or the last one.
\<close>

theorem Solve_callback_schedule:
  fixes C :: "'p Collab"
  shows "(2 \<le> num_cback_calls (opts s) \<longrightarrow>
            length (callback_schedule (opts s)) = nat (num_cback_calls (opts s))
            \<and> (\<forall>k < nat (num_cback_calls (opts s)).
                  callback_schedule (opts s) ! k =
                    of_int (max_iters (opts s) - 1) / (of_int (num_cback_calls (opts s)) - 1)
                      * of_nat k)
            \<and> last (callback_schedule (opts s)) = of_int (max_iters (opts s) - 1))
       \<and> (num_cback_calls (opts s) < 2 \<longrightarrow> callback_schedule (opts s) = [100000000])
       \<and> (num_cback_calls (opts s) < 1 \<and> max_iters (opts s) \<le> 100000001
            \<longrightarrow> (\<exists>res s'. Solve C s = Inr (res, s', [])))
       \<and> (num_cback_calls (opts s) = 1 \<and> 1 \<le> max_iters (opts s)
            \<and> max_iters (opts s) \<le> 100000001
            \<longrightarrow> (\<exists>res s' k x y. Solve C s = Inr (res, s', [(k, x, y)])
                   \<and> 1 \<le> k \<and> k \<le> max_iters (opts s)
                   \<and> (stopping_cb C (k - 1) \<or> residuals_below C (k - 1)
                        \<or> k = max_iters (opts s))))"
proof (intro conjI impI allI)
  assume n: "2 \<le> num_cback_calls (opts s)"
  then show "length (callback_schedule (opts s)) = nat (num_cback_calls (opts s))"
    by (simp add: callback_schedule_def linspace_def)
  show "last (callback_schedule (opts s)) = of_int (max_iters (opts s) - 1)"
    using n linspace_last [OF n] by (simp add: callback_schedule_def)
  fix k assume "k < nat (num_cback_calls (opts s))"
  then show "callback_schedule (opts s) ! k =
                    of_int (max_iters (opts s) - 1) / (of_int (num_cback_calls (opts s)) - 1)
                      * of_nat k"
    using n by (simp add: callback_schedule_def linspace_def)
next
  assume "num_cback_calls (opts s) < 2"
  then show "callback_schedule (opts s) = [100000000]" by (simp add: callback_schedule_def)
next
  assume h: "num_cback_calls (opts s) < 1 \<and> max_iters (opts s) \<le> 100000001"
  let ?r = "\<lparr>solver = s, cb_iters = callback_schedule (opts s), interm_calls = []\<rparr>"
  have "schedule_ok ?r" using h by (intro initial_schedule_ok) simp
  then obtain res r' where l: "Solve_loop C 0 ?r = Inr (res, r')"
    using Solve_loop_Inr [of 0 ?r C] by auto
  have "interm_calls r' = []"
    using Solve_loop_no_calls [OF _ l] h by simp
  then show "\<exists>res s'. Solve C s = Inr (res, s', [])"
    using Solve_of_loop [OF l] by auto
next
  assume h: "num_cback_calls (opts s) = 1 \<and> 1 \<le> max_iters (opts s)
            \<and> max_iters (opts s) \<le> 100000001"
  let ?r = "\<lparr>solver = s, cb_iters = callback_schedule (opts s), interm_calls = []\<rparr>"
  have c: "cb_iters ?r = [100000000]" using h by (simp add: callback_schedule_def)
  obtain res r' k x y where l: "Solve_loop C 0 ?r = Inr (res, r')"
    and "interm_calls r' = [(k, x, y)]" "0 + 1 \<le> k" "k \<le> max_iters (opts (solver ?r))"
    "stopping_cb C (k - 1) \<or> residuals_below C (k - 1) \<or> k = max_iters (opts (solver ?r))"
    using Solve_loop_single_call [of ?r 0 C] c h by auto
  then show "\<exists>res s' k x y. Solve C s = Inr (res, s', [(k, x, y)])
                   \<and> 1 \<le> k \<and> k \<le> max_iters (opts s)
                   \<and> (stopping_cb C (k - 1) \<or> residuals_below C (k - 1)
                        \<or> k = max_iters (opts s))"
    using Solve_of_loop [OF l] by auto
qed

text \<open>Schedules of 3, 1 and 0 callbacks over the 5 iterations of the example.\<close>

theorem Solve_callback_schedule_witness:
  "length (callback_schedule (opts (ex_solver\<lparr>opts := ex_opts\<lparr>num_cback_calls := 3\<rparr>\<rparr>))) = 3
   \<and> callback_schedule (opts (ex_solver\<lparr>opts := ex_opts\<lparr>num_cback_calls := 3\<rparr>\<rparr>)) ! 1 = 2
   \<and> callback_schedule (opts ex_solver) = [100000000]
   \<and> (\<exists>res s'. Solve ex_collab (ex_solver\<lparr>opts := ex_opts\<lparr>num_cback_calls := 0\<rparr>\<rparr>)
                  = Inr (res, s', []))
   \<and> (\<exists>res s' k x y. Solve ex_collab ex_solver = Inr (res, s', [(k, x, y)]))"
proof -
  let ?s3 = "ex_solver\<lparr>opts := ex_opts\<lparr>num_cback_calls := 3\<rparr>\<rparr>"
  let ?s0 = "ex_solver\<lparr>opts := ex_opts\<lparr>num_cback_calls := 0\<rparr>\<rparr>"
  have a: "2 \<le> num_cback_calls (opts ?s3)" "(1::nat) < nat (num_cback_calls (opts ?s3))"
    "max_iters (opts ?s3) = 5" "num_cback_calls (opts ?s3) = 3"
    by (simp_all add: ex_solver_def ex_opts_def)
  have b: "num_cback_calls (opts ?s0) < 1 \<and> max_iters (opts ?s0) \<le> 100000001"
    by (simp add: ex_solver_def ex_opts_def)
  have c: "num_cback_calls (opts ex_solver) = 1 \<and> 1 \<le> max_iters (opts ex_solver)
           \<and> max_iters (opts ex_solver) \<le> 100000001" "num_cback_calls (opts ex_solver) < 2"
    by (simp_all add: ex_solver_def ex_opts_def)
  have t3: "length (callback_schedule (opts ?s3)) = nat (num_cback_calls (opts ?s3))
        \<and> callback_schedule (opts ?s3) ! 1 =
             of_int (max_iters (opts ?s3) - 1) / (of_int (num_cback_calls (opts ?s3)) - 1) * of_nat 1"
    using Solve_callback_schedule [of ?s3 ex_collab] a(1) a(2) by blast
  have t0: "\<exists>res s'. Solve ex_collab ?s0 = Inr (res, s', [])"
    using Solve_callback_schedule [of ?s0 ex_collab] b by blast
  have t1: "callback_schedule (opts ex_solver) = [100000000]
      \<and> (\<exists>res s' k x y. Solve ex_collab ex_solver = Inr (res, s', [(k, x, y)]))"
    using Solve_callback_schedule [of ex_solver ex_collab] c by blast
  show ?thesis using t3 t0 t1 unfolding a(3) a(4) by simp
qed

text \<open>
  C2 as stated fails for \<open>num_cback_calls = 1\<close>: the example converges in iteration 2, and
  the intermediate callback is invoked there, with iteration number 3.
\<close>

theorem Solve_callback_disabled_counterexample:
  "num_cback_calls (opts ex_solver) < 2
   \<and> Solve ex_collab ex_solver = Inr (kConverged, ex_solver, [(3, [], [])])"
  by (simp add: Solve_def Solve_loop.simps Solve_iteration_def callback_schedule_def
      residuals_below_def ex_collab_def ex_solver_def ex_opts_def Let_def)

text \<open>
  C4. With \<open>solve_dual_problem\<close> set, \<open>Initialize\<close> leaves the dualized problem and the
  exchanged warm starts in the solver. Whenever \<open>Solve\<close> on that solver returns, \<open>Dualize\<close>
  has been applied a second time and the warm starts are exchanged back: the options are the
  original ones, the problem is \<open>Dualize (Dualize p)\<close>, which is the initialised problem \<open>p\<close>
  when \<open>Dualize\<close> undoes itself; and the return code is one of Converged, StoppedMaxIters,
  StoppedUser. \<open>Solve\<close> does return when the schedule keeps \<open>front()\<close> defined
  (\<open>num_cback_calls \<ge> 2\<close>, or \<open>max_iters \<le> 10^8 + 1\<close>).
\<close>

theorem Solve_restores_dualized_problem:
  fixes C :: "'p Collab"
  assumes "solve_dual_problem (opts s)" and "Initialize C s = Inr s1"
  shows "\<exists>p. Problem_Initialize C (problem s) = Inr p
             \<and> problem s1 = Dualize C p
             \<and> x0 (opts s1) = y0 (opts s) \<and> y0 (opts s1) = x0 (opts s)
             \<and> (\<forall>res s2 calls. Solve C s1 = Inr (res, s2, calls) \<longrightarrow>
                     problem s2 = Dualize C (Dualize C p)
                   \<and> opts s2 = opts s
                   \<and> (res = kConverged \<or> res = kStoppedMaxIters \<or> res = kStoppedUser)
                   \<and> ((\<forall>q. Dualize C (Dualize C q) = q) \<longrightarrow> problem s2 = p))
             \<and> (2 \<le> num_cback_calls (opts s) \<or> max_iters (opts s) \<le> 100000001
                  \<longrightarrow> (\<exists>res s2 calls. Solve C s1 = Inr (res, s2, calls)))"
proof -
  obtain p where p: "Problem_Initialize C (problem s) = Inr p" "problem s1 = Dualize C p"
    "opts s1 = swap_x0_y0 (opts s)"
    using Initialize_dual [OF assms(1) assms(2)] by blast
  have d1: "solve_dual_problem (opts s1)" using p(3) assms(1) by (simp add: swap_x0_y0_fields)
  have ret: "\<forall>res s2 calls. Solve C s1 = Inr (res, s2, calls) \<longrightarrow>
                     problem s2 = Dualize C (Dualize C p)
                   \<and> opts s2 = opts s
                   \<and> (res = kConverged \<or> res = kStoppedMaxIters \<or> res = kStoppedUser)
                   \<and> ((\<forall>q. Dualize C (Dualize C q) = q) \<longrightarrow> problem s2 = p)"
  proof (intro allI impI)
    fix res s2 calls
    assume sv: "Solve C s1 = Inr (res, s2, calls)"
    have fr: "problem s2 = Dualize C (problem s1) \<and> opts s2 = swap_x0_y0 (opts s1)"
      using Solve_dual [OF d1 sv] .
    have r: "res = kConverged \<or> res = kStoppedMaxIters \<or> res = kStoppedUser"
      by (cases res) simp_all
    show "problem s2 = Dualize C (Dualize C p)
                   \<and> opts s2 = opts s
                   \<and> (res = kConverged \<or> res = kStoppedMaxIters \<or> res = kStoppedUser)
                   \<and> ((\<forall>q. Dualize C (Dualize C q) = q) \<longrightarrow> problem s2 = p)"
      using p fr r by (simp add: swap_x0_y0_twice)
  qed
  have tot: "2 \<le> num_cback_calls (opts s) \<or> max_iters (opts s) \<le> 100000001
                  \<longrightarrow> (\<exists>res s2 calls. Solve C s1 = Inr (res, s2, calls))"
  proof
    assume "2 \<le> num_cback_calls (opts s) \<or> max_iters (opts s) \<le> 100000001"
    then have "2 \<le> num_cback_calls (opts s1) \<or> max_iters (opts s1) \<le> 100000001"
      using p(3) by (simp add: swap_x0_y0_fields)
    then show "\<exists>res s2 calls. Solve C s1 = Inr (res, s2, calls)" by (rule Solve_Inr)
  qed
  have x: "x0 (opts s1) = y0 (opts s) \<and> y0 (opts s1) = x0 (opts s)"
    using p(3) by (simp add: swap_x0_y0_fields)
  show ?thesis
    using p(1) p(2) x ret tot by blast
qed

text \<open>The example, set to solve the dual problem; \<open>Problem_Dualize\<close> undoes itself.\<close>

theorem Solve_restores_dualized_problem_witness:
  "solve_dual_problem (opts ex_solver_dual)
   \<and> (\<exists>s1 res s2 calls.
         Initialize ex_collab ex_solver_dual = Inr s1
         \<and> problem s1 = Problem_Dualize ex_problem
         \<and> x0 (opts s1) = [7] \<and> y0 (opts s1) = [3, 4]
         \<and> Solve ex_collab s1 = Inr (res, s2, calls)
         \<and> problem s2 = ex_problem \<and> opts s2 = opts ex_solver_dual)"
proof -
  have d: "solve_dual_problem (opts ex_solver_dual)"
    by (simp add: ex_solver_dual_def ex_solver_def ex_opts_def)
  have wf: "2 \<le> num_cback_calls (opts ex_solver_dual)
            \<or> max_iters (opts ex_solver_dual) \<le> 100000001"
    by (simp add: ex_solver_dual_def ex_solver_def ex_opts_def)
  obtain s1 where i: "Initialize ex_collab ex_solver_dual = Inr s1"
    by (simp add: Initialize_def ex_collab_def ex_solver_dual_def ex_solver_def ex_opts_def
        Let_def)
  have pi: "Problem_Initialize ex_collab (problem ex_solver_dual) = Inr ex_problem"
    by (simp add: ex_collab_def ex_solver_dual_def ex_solver_def)
  have dz: "Dualize ex_collab = Problem_Dualize" by (simp add: ex_collab_def)
  have xy: "x0 (opts ex_solver_dual) = [3, 4]" "y0 (opts ex_solver_dual) = [7]"
    by (simp_all add: ex_solver_dual_def ex_solver_def ex_opts_def)
  obtain p where t: "Problem_Initialize ex_collab (problem ex_solver_dual) = Inr p"
      "problem s1 = Dualize ex_collab p"
      "x0 (opts s1) = y0 (opts ex_solver_dual)" "y0 (opts s1) = x0 (opts ex_solver_dual)"
      "\<forall>res s2 calls. Solve ex_collab s1 = Inr (res, s2, calls) \<longrightarrow>
           problem s2 = Dualize ex_collab (Dualize ex_collab p)
         \<and> opts s2 = opts ex_solver_dual
         \<and> (res = kConverged \<or> res = kStoppedMaxIters \<or> res = kStoppedUser)
         \<and> ((\<forall>q. Dualize ex_collab (Dualize ex_collab q) = q) \<longrightarrow> problem s2 = p)"
      "2 \<le> num_cback_calls (opts ex_solver_dual) \<or> max_iters (opts ex_solver_dual) \<le> 100000001
         \<longrightarrow> (\<exists>res s2 calls. Solve ex_collab s1 = Inr (res, s2, calls))"
    using Solve_restores_dualized_problem [OF d i] by blast
  have pe: "p = ex_problem" using t(1) pi by simp
  obtain res s2 calls where sv: "Solve ex_collab s1 = Inr (res, s2, calls)"
    using t(6) wf by blast
  have fin: "problem s2 = ex_problem \<and> opts s2 = opts ex_solver_dual"
    using t(5) sv pe dz Problem_Dualize_twice by simp
  have a: "problem s1 = Problem_Dualize ex_problem" using t(2) pe dz by simp
  have b: "x0 (opts s1) = [7] \<and> y0 (opts s1) = [3, 4]" using t(3) t(4) xy by simp
  show ?thesis
    using d i a b sv fin by blast
qed

section \<open>Facts about the handlers\<close>

lemma length_resize: "length (resize n xs) = n"
  by (simp add: resize_def)

lemma Initialize_lengths:
  assumes "Initialize C s = Inr s1"
  shows "solver_lengths s1 = (ncols C (problem s1), nrows C (problem s1),
                              nrows C (problem s1), ncols C (problem s1))"
  using assms
  by (auto simp: Initialize_def Let_def solver_lengths_def lengths4_def length_resize
      split: sum.splits option.splits if_splits)

lemma Solve_iteration_lengths:
  assumes "\<forall>i v. lengths4 (current_solution C i v) = lengths4 v"
    and "Solve_iteration C i r = Inr (res, r')"
  shows "solver_lengths (solver r') = solver_lengths (solver r)"
proof (cases "solver r' = solver r")
  case True
  then show ?thesis by simp
next
  case False
  let ?v = "(cur_primal_sol (solver r), cur_primal_constr_sol (solver r),
             cur_dual_sol (solver r), cur_dual_constr_sol (solver r))"
  obtain x kx y kty where cs: "current_solution C i ?v = (x, kx, y, kty)"
    by (cases "current_solution C i ?v") auto
  have "lengths4 (x, kx, y, kty) = lengths4 ?v" using assms(1) cs by metis
  moreover have "solver_lengths (solver r') = lengths4 (x, kx, y, kty)"
    using assms(2) False cs
    by (auto simp: Solve_iteration_def Let_def solver_lengths_def lengths4_def
        split: list.splits if_splits)
  ultimately show ?thesis by (simp add: solver_lengths_def)
qed

lemma Solve_loop_lengths:
  assumes "\<forall>i v. lengths4 (current_solution C i v) = lengths4 v"
    and "Solve_loop C i r = Inr (res, r')"
  shows "solver_lengths (solver r') = solver_lengths (solver r)"
  using assms
proof (induction C i r rule: Solve_loop.induct)
  case (1 C i r)
  show ?case
  proof (cases "i < max_iters (opts (solver r))")
    case False
    then show ?thesis using 1(3) by (simp add: Solve_loop.simps)
  next
    case True
    show ?thesis
    proof (cases "Solve_iteration C i r")
      case (Inl e)
      then show ?thesis using True 1(3) by (simp add: Solve_loop.simps)
    next
      case (Inr a)
      obtain x r1 where a: "a = (x, r1)" by (cases a)
      have l1: "solver_lengths (solver r1) = solver_lengths (solver r)"
        using Solve_iteration_lengths [OF 1(2)] Inr a by blast
      show ?thesis
      proof (cases x)
        case (Some c)
        then show ?thesis using True Inr a 1(3) l1 by (simp add: Solve_loop.simps)
      next
        case None
        have "Solve_loop C (i + 1) r1 = Inr (res, r')"
          using True Inr a None 1(3) by (simp add: Solve_loop.simps)
        then show ?thesis using 1(1) [OF True Inr [unfolded a None] refl refl 1(2)] l1 by simp
      qed
    qed
  qed
qed

lemma Solve_lengths:
  assumes "\<forall>i v. lengths4 (current_solution C i v) = lengths4 v"
    and "Solve C s1 = Inr (res, s2, calls)"
  shows "solver_lengths s2 = solver_lengths s1
         \<and> opts s2 = (if solve_dual_problem (opts s1) then swap_x0_y0 (opts s1) else opts s1)
         \<and> problem s2 = (if solve_dual_problem (opts s1) then Dualize C (problem s1) else problem s1)"
proof -
  let ?r = "\<lparr>solver = s1, cb_iters = callback_schedule (opts s1), interm_calls = []\<rparr>"
  obtain r' where l: "Solve_loop C 0 ?r = Inr (res, r')"
    using assms(2) by (auto simp: Solve_def Let_def split: sum.splits)
  have fr: "opts (solver r') = opts s1 \<and> problem (solver r') = problem s1"
    using Solve_loop_frame [OF l] by simp
  have ln: "solver_lengths (solver r') = solver_lengths s1"
    using Solve_loop_lengths [OF assms(1) l] by simp
  show ?thesis using assms(2) l fr ln by (auto simp: Solve_def Let_def solver_lengths_def)
qed

lemma std_copy_Inr:
  "std_copy src (replicate n 0) = Inr out \<Longrightarrow>
     length out = n \<and> out = src @ replicate (n - length src) 0"
  by (auto simp: std_copy_def split: if_splits)

lemma std_copy_fits:
  "length src = n \<Longrightarrow> std_copy src (replicate n 0) = Inr src"
  by (simp add: std_copy_def)

lemma copy_result_shape:
  assumes "copy_result C result s = Inr out"
  shows "\<exists>px py pz pw.
           out = mxStruct [(''x'', mxDouble (ncols C (problem s)) 1 px),
                           (''y'', mxDouble (nrows C (problem s)) 1 py),
                           (''z'', mxDouble (nrows C (problem s)) 1 pz),
                           (''w'', mxDouble (ncols C (problem s)) 1 pw),
                           (''result'', mxString (result_string result))]
         \<and> length px = ncols C (problem s) \<and> length py = nrows C (problem s)
         \<and> length pz = nrows C (problem s) \<and> length pw = ncols C (problem s)
         \<and> px = cur_primal_sol_get s @ replicate (ncols C (problem s) - length (cur_primal_sol_get s)) 0
         \<and> py = cur_dual_sol_get s @ replicate (nrows C (problem s) - length (cur_dual_sol_get s)) 0
         \<and> pz = cur_primal_constr_sol_get s
                  @ replicate (nrows C (problem s) - length (cur_primal_constr_sol_get s)) 0
         \<and> pw = cur_dual_constr_sol_get s
                  @ replicate (ncols C (problem s) - length (cur_dual_constr_sol_get s)) 0"
proof -
  let ?nc = "ncols C (problem s)" and ?nr = "nrows C (problem s)"
  obtain py where y: "std_copy (cur_dual_sol_get s) (replicate ?nr 0) = Inr py"
    using assms by (auto simp: copy_result_def Let_def split: sum.splits)
  obtain px where x: "std_copy (cur_primal_sol_get s) (replicate ?nc 0) = Inr px"
    using assms y by (auto simp: copy_result_def Let_def split: sum.splits)
  obtain pz where z: "std_copy (cur_primal_constr_sol_get s) (replicate ?nr 0) = Inr pz"
    using assms y x by (auto simp: copy_result_def Let_def split: sum.splits)
  obtain pw where w: "std_copy (cur_dual_constr_sol_get s) (replicate ?nc 0) = Inr pw"
    using assms y x z by (auto simp: copy_result_def Let_def split: sum.splits)
  have out: "out = mxStruct [(''x'', mxDouble ?nc 1 px), (''y'', mxDouble ?nr 1 py),
                           (''z'', mxDouble ?nr 1 pz), (''w'', mxDouble ?nc 1 pw),
                           (''result'', mxString (result_string result))]"
    using assms y x z w by (simp add: copy_result_def Let_def fieldnames_def)
  show ?thesis
    using out std_copy_Inr [OF x] std_copy_Inr [OF y] std_copy_Inr [OF z] std_copy_Inr [OF w]
    by blast
qed

lemma copy_result_fits:
  assumes "length (cur_primal_sol_get s) = ncols C (problem s)"
    "length (cur_dual_sol_get s) = nrows C (problem s)"
    "length (cur_primal_constr_sol_get s) = nrows C (problem s)"
    "length (cur_dual_constr_sol_get s) = ncols C (problem s)"
  shows "\<exists>out. copy_result C result s = Inr out"
  using assms by (simp add: copy_result_def Let_def std_copy_fits)

lemma result_string_cases:
  "result_string result = ''Converged.'' \<and> result = kConverged
   \<or> result_string result = ''Reached maximum iterations.'' \<and> result = kStoppedMaxIters
   \<or> result_string result = ''Stopped by user.'' \<and> result = kStoppedUser"
  by (cases result) (simp_all add: result_string_def)

lemma Initialize_opts:
  assumes "Initialize C s = Inr s1"
  shows "opts s1 = (if solve_dual_problem (opts s) then swap_x0_y0 (opts s) else opts s)"
  using assms
  by (auto simp: Initialize_def Let_def split: sum.splits option.splits if_splits)

lemma SolveProblem_Inr:
  assumes "SolveProblem C a = Inr out"
  shows "\<exists>p opt s1 result s2 calls.
           sp_CreateProblem a = Inr p \<and> sp_CreateSolverOptions a = Inr opt
         \<and> Initialize C \<lparr>problem = p, opts = opt, cur_primal_sol = [],
                           cur_primal_constr_sol = [], cur_dual_sol = [],
                           cur_dual_constr_sol = []\<rparr> = Inr s1
         \<and> Solve C s1 = Inr (result, s2, calls)
         \<and> copy_result C result s2 = Inr out"
  using assms
  by (auto simp: SolveProblem_def split: if_splits sum.splits option.splits)

lemma SolveProblem_returns:
  assumes dev: "sp_device_ok a" and cp: "sp_CreateProblem a = Inr p"
    and cb: "sp_CreateBackend a = None" and co: "sp_CreateSolverOptions a = Inr opt"
    and ini: "Initialize C \<lparr>problem = p, opts = opt, cur_primal_sol = [],
                           cur_primal_constr_sol = [], cur_dual_sol = [],
                           cur_dual_constr_sol = []\<rparr> = Inr s1"
    and wf: "2 \<le> num_cback_calls opt \<or> max_iters opt \<le> 100000001"
    and keep: "\<forall>i v. lengths4 (current_solution C i v) = lengths4 v"
    and dims: "solve_dual_problem opt \<longrightarrow>
               (\<forall>q. ncols C (Dualize C q) = nrows C q \<and> nrows C (Dualize C q) = ncols C q)"
  shows "\<exists>out. SolveProblem C a = Inr out"
proof -
  have o1: "opts s1 = (if solve_dual_problem opt then swap_x0_y0 opt else opt)"
    using Initialize_opts [OF ini] by simp
  have d1: "solve_dual_problem (opts s1) = solve_dual_problem opt"
    using o1 by (simp add: swap_x0_y0_fields)
  have wf1: "2 \<le> num_cback_calls (opts s1) \<or> max_iters (opts s1) \<le> 100000001"
    using o1 wf by (simp add: swap_x0_y0_fields)
  obtain result s2 calls where sv: "Solve C s1 = Inr (result, s2, calls)"
    using Solve_Inr [OF wf1] by blast
  have l1: "solver_lengths s1 = (ncols C (problem s1), nrows C (problem s1),
                                 nrows C (problem s1), ncols C (problem s1))"
    using Initialize_lengths [OF ini] .
  have s2: "solver_lengths s2 = solver_lengths s1"
    "opts s2 = (if solve_dual_problem (opts s1) then swap_x0_y0 (opts s1) else opts s1)"
    "problem s2 = (if solve_dual_problem (opts s1) then Dualize C (problem s1) else problem s1)"
    using Solve_lengths [OF keep sv] by simp_all
  have d2: "solve_dual_problem (opts s2) = solve_dual_problem opt"
    using s2(2) d1 by (simp add: swap_x0_y0_fields)
  have len: "length (cur_primal_sol s2) = ncols C (problem s1)"
    "length (cur_primal_constr_sol s2) = nrows C (problem s1)"
    "length (cur_dual_sol s2) = nrows C (problem s1)"
    "length (cur_dual_constr_sol s2) = ncols C (problem s1)"
    using l1 s2(1) by (simp_all add: solver_lengths_def lengths4_def)
  have "\<exists>out. copy_result C result s2 = Inr out"
  proof (cases "solve_dual_problem opt")
    case True
    then have p2: "problem s2 = Dualize C (problem s1)" using s2(3) d1 by simp
    show ?thesis
      using True d2 len p2 dims
      by (intro copy_result_fits)
         (simp_all add: cur_primal_sol_get_def cur_dual_sol_get_def
            cur_primal_constr_sol_get_def cur_dual_constr_sol_get_def)
  next
    case False
    then have p2: "problem s2 = problem s1" using s2(3) d1 by simp
    show ?thesis
      using False d2 len p2
      by (intro copy_result_fits)
         (simp_all add: cur_primal_sol_get_def cur_dual_sol_get_def
            cur_primal_constr_sol_get_def cur_dual_constr_sol_get_def)
  qed
  then show ?thesis
    using dev cp cb co ini sv by (simp add: SolveProblem_def)
qed

lemma ex_collab_keeps_lengths:
  "\<forall>i v. lengths4 (current_solution ex_collab i v) = lengths4 v"
  by (simp add: ex_collab_def lengths4_def split: prod.splits)

lemma ex_collab_Dualize_dims:
  "\<forall>q. ncols ex_collab (Dualize ex_collab q) = nrows ex_collab q
       \<and> nrows ex_collab (Dualize ex_collab q) = ncols ex_collab q"
  by (simp add: ex_collab_def Problem_Dualize_def)

section \<open>Properties of the host binding\<close>

text \<open>
  C5, as amended. Whenever \<open>solve_problem\<close> returns, its result is a struct of exactly five
  fields named \<open>x\<close>, \<open>y\<close>, \<open>z\<close>, \<open>w\<close>, \<open>result\<close>, in this order: \<open>x\<close> holds the primal
  solution and has length \<open>ncols\<close>, \<open>y\<close> the dual solution with length \<open>nrows\<close>, \<open>z\<close> the
  primal constraint solution (K x) with length \<open>nrows\<close>, \<open>w\<close> the dual constraint solution
  (K^T y) with length \<open>ncols\<close>, and \<open>result\<close> is the string of the return code of \<open>Solve\<close>:
  "Converged.", "Reached maximum iterations." or "Stopped by user.". The sizes are those of
  the problem after \<open>Solve\<close>. And it does return when the device is valid, the factories
  and \<open>Initialize\<close> succeed, the schedule keeps \<open>front()\<close> defined, the backend keeps the
  lengths of the solution vectors and, for a dual solve, \<open>Dualize\<close> exchanges the two sizes.
\<close>

theorem SolveProblem_struct:
  fixes C :: "'p Collab"
  shows "(SolveProblem C a = Inr out \<longrightarrow>
           (\<exists>p opt s1 result s2 calls px py pz pw.
               sp_CreateProblem a = Inr p \<and> sp_CreateSolverOptions a = Inr opt
             \<and> Initialize C \<lparr>problem = p, opts = opt, cur_primal_sol = [],
                               cur_primal_constr_sol = [], cur_dual_sol = [],
                               cur_dual_constr_sol = []\<rparr> = Inr s1
             \<and> Solve C s1 = Inr (result, s2, calls)
             \<and> out = mxStruct [(''x'', mxDouble (ncols C (problem s2)) 1 px),
                               (''y'', mxDouble (nrows C (problem s2)) 1 py),
                               (''z'', mxDouble (nrows C (problem s2)) 1 pz),
                               (''w'', mxDouble (ncols C (problem s2)) 1 pw),
                               (''result'', mxString (result_string result))]
             \<and> length px = ncols C (problem s2) \<and> length py = nrows C (problem s2)
             \<and> length pz = nrows C (problem s2) \<and> length pw = ncols C (problem s2)
             \<and> px = cur_primal_sol_get s2
                      @ replicate (ncols C (problem s2) - length (cur_primal_sol_get s2)) 0
             \<and> py = cur_dual_sol_get s2
                      @ replicate (nrows C (problem s2) - length (cur_dual_sol_get s2)) 0
             \<and> pz = cur_primal_constr_sol_get s2
                      @ replicate (nrows C (problem s2) - length (cur_primal_constr_sol_get s2)) 0
             \<and> pw = cur_dual_constr_sol_get s2
                      @ replicate (ncols C (problem s2) - length (cur_dual_constr_sol_get s2)) 0
             \<and> (result_string result = ''Converged.'' \<and> result = kConverged
                \<or> result_string result = ''Reached maximum iterations.''
                    \<and> result = kStoppedMaxIters
                \<or> result_string result = ''Stopped by user.'' \<and> result = kStoppedUser)))
       \<and> (sp_device_ok a \<and> sp_CreateProblem a = Inr p0 \<and> sp_CreateBackend a = None
            \<and> sp_CreateSolverOptions a = Inr opt0
            \<and> Initialize C \<lparr>problem = p0, opts = opt0, cur_primal_sol = [],
                              cur_primal_constr_sol = [], cur_dual_sol = [],
                              cur_dual_constr_sol = []\<rparr> = Inr s0
            \<and> (2 \<le> num_cback_calls opt0 \<or> max_iters opt0 \<le> 100000001)
            \<and> (\<forall>i v. lengths4 (current_solution C i v) = lengths4 v)
            \<and> (solve_dual_problem opt0 \<longrightarrow>
                 (\<forall>q. ncols C (Dualize C q) = nrows C q \<and> nrows C (Dualize C q) = ncols C q))
            \<longrightarrow> (\<exists>out'. SolveProblem C a = Inr out'))"
proof (intro conjI impI)
  assume r: "SolveProblem C a = Inr out"
  obtain p opt s1 result s2 calls where
    f: "sp_CreateProblem a = Inr p" "sp_CreateSolverOptions a = Inr opt"
       "Initialize C \<lparr>problem = p, opts = opt, cur_primal_sol = [],
                       cur_primal_constr_sol = [], cur_dual_sol = [],
                       cur_dual_constr_sol = []\<rparr> = Inr s1"
       "Solve C s1 = Inr (result, s2, calls)"
    and c: "copy_result C result s2 = Inr out"
    using SolveProblem_Inr [OF r] by blast
  show "\<exists>p opt s1 result s2 calls px py pz pw.
               sp_CreateProblem a = Inr p \<and> sp_CreateSolverOptions a = Inr opt
             \<and> Initialize C \<lparr>problem = p, opts = opt, cur_primal_sol = [],
                               cur_primal_constr_sol = [], cur_dual_sol = [],
                               cur_dual_constr_sol = []\<rparr> = Inr s1
             \<and> Solve C s1 = Inr (result, s2, calls)
             \<and> out = mxStruct [(''x'', mxDouble (ncols C (problem s2)) 1 px),
                               (''y'', mxDouble (nrows C (problem s2)) 1 py),
                               (''z'', mxDouble (nrows C (problem s2)) 1 pz),
                               (''w'', mxDouble (ncols C (problem s2)) 1 pw),
                               (''result'', mxString (result_string result))]
             \<and> length px = ncols C (problem s2) \<and> length py = nrows C (problem s2)
             \<and> length pz = nrows C (problem s2) \<and> length pw = ncols C (problem s2)
             \<and> px = cur_primal_sol_get s2
                      @ replicate (ncols C (problem s2) - length (cur_primal_sol_get s2)) 0
             \<and> py = cur_dual_sol_get s2
                      @ replicate (nrows C (problem s2) - length (cur_dual_sol_get s2)) 0
             \<and> pz = cur_primal_constr_sol_get s2
                      @ replicate (nrows C (problem s2) - length (cur_primal_constr_sol_get s2)) 0
             \<and> pw = cur_dual_constr_sol_get s2
                      @ replicate (ncols C (problem s2) - length (cur_dual_constr_sol_get s2)) 0
             \<and> (result_string result = ''Converged.'' \<and> result = kConverged
                \<or> result_string result = ''Reached maximum iterations.''
                    \<and> result = kStoppedMaxIters
                \<or> result_string result = ''Stopped by user.'' \<and> result = kStoppedUser)"
    using f copy_result_shape [OF c] result_string_cases [of result] by blast
next
  assume h: "sp_device_ok a \<and> sp_CreateProblem a = Inr p0 \<and> sp_CreateBackend a = None
            \<and> sp_CreateSolverOptions a = Inr opt0
            \<and> Initialize C \<lparr>problem = p0, opts = opt0, cur_primal_sol = [],
                              cur_primal_constr_sol = [], cur_dual_sol = [],
                              cur_dual_constr_sol = []\<rparr> = Inr s0
            \<and> (2 \<le> num_cback_calls opt0 \<or> max_iters opt0 \<le> 100000001)
            \<and> (\<forall>i v. lengths4 (current_solution C i v) = lengths4 v)
            \<and> (solve_dual_problem opt0 \<longrightarrow>
                 (\<forall>q. ncols C (Dualize C q) = nrows C q \<and> nrows C (Dualize C q) = ncols C q))"
  show "\<exists>out'. SolveProblem C a = Inr out'"
    by (rule SolveProblem_returns [of a p0 opt0 C s0]) (use h in blast)+
qed

text \<open>The dual solve of the example returns, with the solutions exchanged back.\<close>

theorem SolveProblem_struct_witness:
  "(\<exists>out. SolveProblem ex_collab ex_sp_args_dual = Inr out)
   \<and> SolveProblem ex_collab ex_sp_args_dual
       = Inr (mxStruct [(''x'', mxDouble 2 1 [3, 3]), (''y'', mxDouble 1 1 [1]),
                        (''z'', mxDouble 1 1 [4]), (''w'', mxDouble 2 1 [2, 2]),
                        (''result'', mxString ''Converged.'')])"
proof -
  let ?opt = "ex_opts\<lparr>solve_dual_problem := True\<rparr>"
  obtain s0 where i: "Initialize ex_collab \<lparr>problem = ex_problem, opts = ?opt, cur_primal_sol = [],
                              cur_primal_constr_sol = [], cur_dual_sol = [],
                              cur_dual_constr_sol = []\<rparr> = Inr s0"
    by (simp add: Initialize_def ex_collab_def ex_opts_def Let_def)
  have h: "sp_device_ok ex_sp_args_dual \<and> sp_CreateProblem ex_sp_args_dual = Inr ex_problem
           \<and> sp_CreateBackend ex_sp_args_dual = None
           \<and> sp_CreateSolverOptions ex_sp_args_dual = Inr ?opt
           \<and> (2 \<le> num_cback_calls ?opt \<or> max_iters ?opt \<le> 100000001)"
    by (simp add: ex_sp_args_dual_def ex_sp_args_def ex_opts_def)
  have r: "\<exists>out. SolveProblem ex_collab ex_sp_args_dual = Inr out"
    using SolveProblem_struct [of ex_collab ex_sp_args_dual _ ex_problem ?opt s0]
      h i ex_collab_keeps_lengths ex_collab_Dualize_dims
    by blast
  have v: "SolveProblem ex_collab ex_sp_args_dual
       = Inr (mxStruct [(''x'', mxDouble 2 1 [3, 3]), (''y'', mxDouble 1 1 [1]),
                        (''z'', mxDouble 1 1 [4]), (''w'', mxDouble 2 1 [2, 2]),
                        (''result'', mxString ''Converged.'')])"
    by (simp add: SolveProblem_def ex_sp_args_dual_def ex_sp_args_def Initialize_def
        copy_result_def std_copy_def fieldnames_def result_string_def resize_def
        swap_x0_y0_def Problem_Dualize_def
        cur_primal_sol_get_def cur_dual_sol_get_def cur_primal_constr_sol_get_def
        cur_dual_constr_sol_get_def
        Solve_def Solve_loop.simps Solve_iteration_def callback_schedule_def
        residuals_below_def ex_collab_def ex_problem_def ex_opts_def Let_def numeral_2_eq_2)
  show ?thesis using r v by simp
qed

text \<open>
  C5 as stated fails: no field of the struct is named \<open>Kx\<close> or \<open>result_string\<close>, and the
  second field is \<open>y\<close>, the dual solution.
\<close>

theorem SolveProblem_struct_counterexample:
  "SolveProblem ex_collab ex_sp_args
     = Inr (mxStruct [(''x'', mxDouble 2 1 [1, 1]), (''y'', mxDouble 1 1 [3]),
                      (''z'', mxDouble 1 1 [2]), (''w'', mxDouble 2 1 [4, 4]),
                      (''result'', mxString ''Converged.'')])
   \<and> fieldnames = [''x'', ''y'', ''z'', ''w'', ''result'']
   \<and> ''Kx'' \<notin> set fieldnames \<and> ''result_string'' \<notin> set fieldnames
   \<and> fieldnames ! 1 = ''y''"
  by (simp add: SolveProblem_def ex_sp_args_def Initialize_def copy_result_def std_copy_def
      fieldnames_def result_string_def resize_def
      cur_primal_sol_get_def cur_dual_sol_get_def cur_primal_constr_sol_get_def
      cur_dual_constr_sol_get_def
      Solve_def Solve_loop.simps Solve_iteration_def callback_schedule_def
      residuals_below_def ex_collab_def ex_problem_def ex_opts_def Let_def numeral_2_eq_2)

text \<open>
  C6, as amended. \<open>eval_prox\<close> fails with an exception when fewer than four inputs or no
  output are supplied, when the device is invalid, when the argument is not a column vector,
  when the prox cannot be constructed, or when the length \<open>n\<close> of the argument differs from
  the size of the constructed prox. When none of these holds (and \<open>tau_diag\<close> holds \<open>n\<close>
  values, and the evaluation returns at most \<open>n\<close> values) it returns exactly the pair of
  the result, of length \<open>n\<close>, and the time. Every return is such a pair, and then \<open>n\<close> is the
  size of the prox.
\<close>

theorem EvalProx_outcome:
  "(ep_nrhs a < 4 \<or> ep_nlhs a = 0 \<or> \<not> ep_device_ok a \<or> snd (ep_dims a) \<noteq> 1
      \<or> (\<exists>what. ep_CreateProx a = Inl what)
      \<or> (\<exists>prox. ep_CreateProx a = Inr prox \<and> prox_size prox \<noteq> fst (ep_dims a))
      \<longrightarrow> (\<exists>what. EvalProx a = Inl (Exception what)))
   \<and> (4 \<le> ep_nrhs a \<and> ep_nlhs a \<noteq> 0 \<and> ep_device_ok a \<and> snd (ep_dims a) = 1
        \<and> ep_CreateProx a = Inr prox \<and> prox_size prox = fst (ep_dims a)
        \<and> fst (ep_dims a) \<le> length (ep_arg a) \<and> fst (ep_dims a) \<le> length (ep_tau_diag a)
        \<and> ep_Eval a prox (take (fst (ep_dims a)) (ep_arg a))
              (take (fst (ep_dims a)) (ep_tau_diag a)) (ep_tau a) = Inr (h_result, ms)
        \<and> length h_result \<le> fst (ep_dims a)
        \<longrightarrow> EvalProx a =
              Inr [mxDouble (fst (ep_dims a)) 1
                     (h_result @ replicate (fst (ep_dims a) - length h_result) 0),
                   mxDouble 1 1 [ms]])
   \<and> (EvalProx a = Inr out
        \<longrightarrow> (\<exists>res ms prox. out = [mxDouble (fst (ep_dims a)) 1 res, mxDouble 1 1 [ms]]
                \<and> length res = fst (ep_dims a)
                \<and> ep_CreateProx a = Inr prox \<and> prox_size prox = fst (ep_dims a)))"
proof (intro conjI impI)
  assume "ep_nrhs a < 4 \<or> ep_nlhs a = 0 \<or> \<not> ep_device_ok a \<or> snd (ep_dims a) \<noteq> 1
      \<or> (\<exists>what. ep_CreateProx a = Inl what)
      \<or> (\<exists>prox. ep_CreateProx a = Inr prox \<and> prox_size prox \<noteq> fst (ep_dims a))"
  then show "\<exists>what. EvalProx a = Inl (Exception what)"
    by (auto simp: EvalProx_def Let_def split: sum.splits)
next
  assume "4 \<le> ep_nrhs a \<and> ep_nlhs a \<noteq> 0 \<and> ep_device_ok a \<and> snd (ep_dims a) = 1
        \<and> ep_CreateProx a = Inr prox \<and> prox_size prox = fst (ep_dims a)
        \<and> fst (ep_dims a) \<le> length (ep_arg a) \<and> fst (ep_dims a) \<le> length (ep_tau_diag a)
        \<and> ep_Eval a prox (take (fst (ep_dims a)) (ep_arg a))
              (take (fst (ep_dims a)) (ep_tau_diag a)) (ep_tau a) = Inr (h_result, ms)
        \<and> length h_result \<le> fst (ep_dims a)"
  then show "EvalProx a =
              Inr [mxDouble (fst (ep_dims a)) 1
                     (h_result @ replicate (fst (ep_dims a) - length h_result) 0),
                   mxDouble 1 1 [ms]]"
    by (simp add: EvalProx_def Let_def read_doubles_def std_copy_def)
next
  assume "EvalProx a = Inr out"
  then show "\<exists>res ms prox. out = [mxDouble (fst (ep_dims a)) 1 res, mxDouble 1 1 [ms]]
                \<and> length res = fst (ep_dims a)
                \<and> ep_CreateProx a = Inr prox \<and> prox_size prox = fst (ep_dims a)"
    by (auto simp: EvalProx_def Let_def read_doubles_def std_copy_def
        split: if_splits sum.splits)
qed

text \<open>The box indicator on \<open>[-0.3, 0.5, 1.7]\<close>; and an argument of length 2 for the prox of size 3.\<close>

theorem EvalProx_outcome_witness:
  "EvalProx ex_ep_args = Inr [mxDouble 3 1 [0, 1 / 2, 1], mxDouble 1 1 [1 / 4]]
   \<and> (\<exists>what. EvalProx (ex_ep_args\<lparr>ep_dims := (2, 1)\<rparr>) = Inl (Exception what))"
proof -
  have h: "4 \<le> ep_nrhs ex_ep_args \<and> ep_nlhs ex_ep_args \<noteq> 0 \<and> ep_device_ok ex_ep_args
        \<and> snd (ep_dims ex_ep_args) = 1
        \<and> ep_CreateProx ex_ep_args = Inr ex_prox \<and> prox_size ex_prox = fst (ep_dims ex_ep_args)
        \<and> fst (ep_dims ex_ep_args) \<le> length (ep_arg ex_ep_args)
        \<and> fst (ep_dims ex_ep_args) \<le> length (ep_tau_diag ex_ep_args)
        \<and> ep_Eval ex_ep_args ex_prox (take (fst (ep_dims ex_ep_args)) (ep_arg ex_ep_args))
              (take (fst (ep_dims ex_ep_args)) (ep_tau_diag ex_ep_args)) (ep_tau ex_ep_args)
            = Inr ([0, 1 / 2, 1], 1 / 4)
        \<and> length [0, 1 / 2, 1 :: real] \<le> fst (ep_dims ex_ep_args)"
    by (simp add: ex_ep_args_def ex_prox_def Function1DIndBox01_def fgt_def flt_def key_def
        valof_def)
  have d: "fst (ep_dims ex_ep_args) = 3" by (simp add: ex_ep_args_def)
  have g: "\<exists>p. ep_CreateProx (ex_ep_args\<lparr>ep_dims := (2, 1)\<rparr>) = Inr p
             \<and> prox_size p \<noteq> fst (ep_dims (ex_ep_args\<lparr>ep_dims := (2, 1)\<rparr>))"
    by (simp add: ex_ep_args_def ex_prox_def)
  have a: "EvalProx ex_ep_args = Inr [mxDouble 3 1 [0, 1 / 2, 1], mxDouble 1 1 [1 / 4]]"
    using EvalProx_outcome [of ex_ep_args ex_prox "[0, 1 / 2, 1]" "1 / 4"] h d by simp
  have b: "\<exists>what. EvalProx (ex_ep_args\<lparr>ep_dims := (2, 1)\<rparr>) = Inl (Exception what)"
    using EvalProx_outcome [of "ex_ep_args\<lparr>ep_dims := (2, 1)\<rparr>"] g by blast
  show ?thesis using a b by simp
qed

text \<open>
  C6 as stated fails: with \<open>n\<close> equal to the size of the prox, a matrix argument and an
  invalid device each end in an exception.
\<close>

theorem EvalProx_outcome_counterexample:
  "prox_size ex_prox = fst (ep_dims ex_ep_args_matrix)
   \<and> ep_CreateProx ex_ep_args_matrix = Inr ex_prox
   \<and> EvalProx ex_ep_args_matrix = Inl (Exception ''Input to prox should be a vector!'')
   \<and> prox_size ex_prox = fst (ep_dims ex_ep_args_no_device)
   \<and> ep_dims ex_ep_args_no_device = (3, 1)
   \<and> ep_CreateProx ex_ep_args_no_device = Inr ex_prox
   \<and> EvalProx ex_ep_args_no_device = Inl (Exception ''Invalid CUDA device.'')"
  by (simp add: EvalProx_def ex_ep_args_matrix_def ex_ep_args_no_device_def ex_ep_args_def
      ex_prox_def)

text \<open>
  What the handler of the exception does, for any command whose run throws (a registered
  handler, or the unknown command): if \<open>mexErrMsgTxt\<close> returned, the events of \<open>Release\<close>
  would follow the message; as it does not return, the message is the last event.
\<close>

lemma mexFunction_catch:
  assumes "nrhs \<noteq> 0"
    and "(case map_of (cmd_reg run) cmd of
            Some r \<Rightarrow> r
          | None \<Rightarrow> ([], Some (''Unknown command '' @ [CHR 0x27] @ cmd @ [CHR 0x27] @ ''.'')))
         = (evs, Some what)"
  shows "mexFunction True run nrhs cmd
           = (evs @ [ev_mexErrMsgTxt what, ev_mexUnlock, ev_cudaDeviceReset], Returned)"
    and "mexFunction False run nrhs cmd = (evs @ [ev_mexErrMsgTxt what], EndedByHost)"
  using assms by (simp_all add: mexFunction_def Release_def)

lemma mexFunction_catch_when_errmsg_returns:
  "mexFunction True run 1 ''foo''
     = ([ev_mexErrMsgTxt ''Unknown command 'foo'.'', ev_mexUnlock, ev_cudaDeviceReset],
        Returned)"
  by (simp add: mexFunction_def cmd_reg_def Release_def)

text \<open>
  C3 fails on the code. \<open>mexErrMsgTxt\<close> does not return, so the call of \<open>Release\<close> after it
  in the handler is never reached: for the unknown command \<open>foo\<close> the dispatcher reports the
  message and ends there; neither \<open>mexUnlock\<close> nor \<open>cudaDeviceReset\<close> runs.
\<close>

theorem mexFunction_unknown_command_no_Release:
  "mexFunction False run 1 ''foo''
     = ([ev_mexErrMsgTxt ''Unknown command 'foo'.''], EndedByHost)
   \<and> ev_mexUnlock \<notin> set (fst (mexFunction False run 1 ''foo''))
   \<and> ev_cudaDeviceReset \<notin> set (fst (mexFunction False run 1 ''foo''))"
  by (simp add: mexFunction_def cmd_reg_def)

end
